theory Spec2Isabelle
  imports Complex_Main "HOL-Library.AList" "HOL-Library.Char_ord" "HOL-Library.List_Lexorder"
begin

section \<open>Exceptions as values\<close>

text \<open>
  Where the source formats run-time values into the text of an exception (an f-string),
  the message below carries those values in a constructor of its own; a literal text of
  the source is a \<open>Text\<close>.
\<close>

datatype message =
    Text string
  | CannotReinterpret "(char \<times> nat) list" "char list"
      \<comment> \<open>"Cannot reinterpret input with shape {tagged shape} using given axis order of {info_keys}"\<close>
  | IncompatibleAxes "char list" "string list"
      \<comment> \<open>"The axes of your dataset ({keys}) are not compatible with any of the allowed axis
          configurations used by this workflow ({forceAxisOrder})."\<close>
  | CouldNotFindFile string
      \<comment> \<open>"Could not find file at {externalPath}"\<close>
  | NotH5N5 string
      \<comment> \<open>"{path} is not an 'n5' or 'h5' file"\<close>

datatype error =
    AssertionError string
  | DatasetConstraintError string message  \<comment> \<open>applet name, explanation\<close>
  | InvalidDimensionalityError string      \<comment> \<open>declared by OpDataSelection\<close>
  | PyException message                    \<comment> \<open>\<open>raise Exception(...)\<close>\<close>
  | NameError string                       \<comment> \<open>the name that is not defined\<close>
  | AttributeError string                  \<comment> \<open>the attribute that was never assigned\<close>
  | SlotNotReadyError                      \<comment> \<open>\<open>.value\<close> of an input slot that is not ready\<close>
  | IndexError
  | KeyError
  | ValueError
  | RecursionError
  | External string
      \<comment> \<open>whatever a collaborator outside these files raised (a reader operator, h5py, the
          DVID client, numpy); kept apart from the exceptions the modelled code raises itself\<close>

section \<open>Python string helpers\<close>

text \<open>\<open>s.split(sep)\<close> for a non-empty separator: the pieces between the occurrences of
  \<open>sep\<close>, scanned from the left. The second argument accumulates the current piece.\<close>

function py_split :: "string \<Rightarrow> string \<Rightarrow> string \<Rightarrow> string list" where
  "py_split sep acc [] = [rev acc]"
| "py_split sep acc (c # cs) =
     (if sep \<noteq> [] \<and> take (length sep) (c # cs) = sep
      then rev acc # py_split sep [] (drop (length sep) (c # cs))
      else py_split sep (c # acc) cs)"
  by pat_completeness auto
termination
  by (relation "measure (\<lambda>(sep, acc, s). length s)") auto

text \<open>\<open>sep.join(xs)\<close>.\<close>

fun py_join :: "string \<Rightarrow> string list \<Rightarrow> string" where
  "py_join sep [] = []"
| "py_join sep [x] = x"
| "py_join sep (x # y # ys) = x @ sep @ py_join sep (y # ys)"

text \<open>\<open>s.lstrip('/')\<close> and \<open>s.replace('/', '-')\<close>.\<close>

definition lstrip_slash :: "string \<Rightarrow> string" where
  "lstrip_slash s = dropWhile (\<lambda>c. c = CHR ''/'') s"

definition replace_slash_dash :: "string \<Rightarrow> string" where
  "replace_slash_dash s = map (\<lambda>c. if c = CHR ''/'' then CHR ''-'' else c) s"

text \<open>\<open>str(n)\<close> for a natural number: its decimal digits.\<close>

fun str_nat :: "nat \<Rightarrow> string" where
  "str_nat n =
     (if n < 10 then [char_of (48 + n)]
      else str_nat (n div 10) @ [char_of (48 + n mod 10)])"

declare str_nat.simps [simp del]

text \<open>\<open>os.path.commonprefix\<close>: the longest string that is a prefix of every element, the
  empty string for an empty list.\<close>

fun common2 :: "string \<Rightarrow> string \<Rightarrow> string" where
  "common2 (a # as) (b # bs) = (if a = b then a # common2 as bs else [])"
| "common2 as bs = []"

fun commonprefix :: "string list \<Rightarrow> string" where
  "commonprefix [] = []"
| "commonprefix (x # xs) = fold common2 xs x"

text \<open>Truth value of an optional string: \<open>None\<close> and the empty string are false.\<close>

fun truthy :: "string option \<Rightarrow> bool" where
  "truthy None = False"
| "truthy (Some s) = (s \<noteq> [])"

text \<open>\<open>a or b\<close> on optional values.\<close>

fun py_or :: "'a option \<Rightarrow> 'a option \<Rightarrow> 'a option" where
  "py_or (Some a) b = Some a"
| "py_or None b = b"

fun str_or :: "string option \<Rightarrow> string option \<Rightarrow> string option" where
  "str_or a b = (if truthy a then a else b)"

section \<open>OpExportDvidVolume\<close>

text \<open>Of the array that is exported only the metadata reaches the code of
  \<open>run_export\<close>: shape, element type and axis tags.\<close>

record volume =
  vol_shape :: "nat list"
  vol_dtype :: string
  vol_axistags :: string

text \<open>The collaborators of \<open>run_export\<close>: the request on the input slot and the two calls
  of the DVID volume client. Each either raises or returns.\<close>

record export_env =
  input_wait :: "string + volume"
  create_volume :: "string \<Rightarrow> string \<Rightarrow> string \<Rightarrow> volume \<Rightarrow> string + unit"
  modify_subvolume ::
    "string \<Rightarrow> string \<Rightarrow> string \<Rightarrow> nat list \<Rightarrow> nat list \<Rightarrow> volume \<Rightarrow> string + unit"

text \<open>The operator: its two configuration values and, as \<open>progress\<close>, the values its
  \<open>progressSignal\<close> has been called with so far, oldest first.\<close>

record OpExportDvidVolume =
  NodeDataUrl :: string
  transpose_axes :: bool
  progress :: "int list"

definition progressSignal :: "int \<Rightarrow> OpExportDvidVolume \<Rightarrow> OpExportDvidVolume" where
  "progressSignal v ex = ex\<lparr>progress := progress ex @ [v]\<rparr>"

definition transpose_volume :: "volume \<Rightarrow> volume" where
  "transpose_volume d = d\<lparr>vol_shape := rev (vol_shape d), vol_axistags := rev (vol_axistags d)\<rparr>"

text \<open>Modelled from the spec: \<open>lazyflow.roi.roiFromShape\<close> is not among the source files;
  the region of a whole array starts at the origin and stops at its shape.\<close>

definition roiFromShape :: "nat list \<Rightarrow> nat list \<times> nat list" where
  "roiFromShape sh = (replicate (length sh) 0, sh)"

text \<open>\<open>run_export\<close>, statement by statement. A raise returns the exception together with
  the operator as it stands at that moment.\<close>

definition run_export ::
  "export_env \<Rightarrow> OpExportDvidVolume \<Rightarrow> (error \<times> OpExportDvidVolume) + OpExportDvidVolume" where
  "run_export env ex0 =
     (let ex1 = progressSignal 0 ex0;
          url = NodeDataUrl ex1
      in case py_split ''://'' [] url of
           scheme # url_path # rest \<Rightarrow>
             (case py_split ''/'' [] url_path of
                [hostname, api, node, uuid, dataname] \<Rightarrow>
                  if api \<noteq> ''api'' then Inl (AssertionError [], ex1)
                  else if node \<noteq> ''node'' then Inl (AssertionError [], ex1)
                  else
                    (case input_wait env of
                       Inl e \<Rightarrow> Inl (External e, ex1)
                     | Inr d \<Rightarrow>
                         let data = (if transpose_axes ex1 then transpose_volume d else d);
                             ex2 = progressSignal 5 ex1
                         in (case create_volume env hostname uuid dataname data of
                               Inl e \<Rightarrow> Inl (External e, ex2)
                             | Inr u \<Rightarrow>
                                 (case modify_subvolume env hostname uuid dataname
                                         (fst (roiFromShape (vol_shape data)))
                                         (snd (roiFromShape (vol_shape data))) data of
                                    Inl e \<Rightarrow> Inl (External e, ex2)
                                  | Inr u' \<Rightarrow> Inr (progressSignal 100 ex2))))
              | other \<Rightarrow> Inl (ValueError, ex1))
         | other \<Rightarrow> Inl (IndexError, ex1))"


section \<open>DatasetInfo\<close>

datatype Location = FileSystem | ProjectInternal | PreloadedArray

text \<open>A preloaded array, as far as the code looks at it: shape, element type name, the
  \<open>axistags\<close> attribute when the array has one, and the outcome of \<open>bool(array)\<close>, which
  numpy decides from the elements (it raises for an array of more than one element).\<close>

record array =
  arr_shape :: "nat list"
  arr_dtype :: string
  arr_axistags :: "string option"
  arr_truth :: "string + bool"

text \<open>The fields of a \<open>DatasetInfo\<close>. Axis tags are the string of their keys, one character
  per axis. \<open>nickname\<close> and \<open>expanded_paths\<close> are \<open>None\<close> while the constructor has not
  assigned the attribute. The \<open>_datasetId\<close> that the \<open>filePath\<close> setter draws from
  \<open>uuid.uuid1()\<close> is left out.\<close>

record DatasetInfo =
  preloaded_array :: "array option"
  filePath :: "string option"
  allowLabels :: bool
  drange :: "(real \<times> real) option"
  normalizeDisplay :: "bool option"
  sequenceAxis :: "string option"
  axistags :: "string option"
  original_axistags :: "string option"
  laneShape :: "nat list option"
  laneDtype :: "string option"
  realDataSource :: bool
  subvolume_roi :: "(nat list \<times> nat list) option"
  location :: Location
  display_mode :: string
  fromstack :: bool
  original_paths :: "string list"
  nickname :: "string option"
  expanded_paths :: "string list option"

text \<open>\<open>lazyflow.utility.PathComponents\<close> is not among the source files; the three
  attributes the code reads are taken as given.\<close>

record PathComponents =
  externalPath :: string
  internalPath :: "string option"
  extension :: string

text \<open>The file system and the library functions that look at it: the working directory,
  \<open>splitPath\<close>, \<open>PathComponents\<close>, \<open>isUrl\<close>, \<open>os.path.isabs\<close>, \<open>os.path.join\<close>,
  \<open>os.path.expanduser\<close>, \<open>glob.glob\<close>, opening an HDF5 or N5 file and globbing inside it
  (\<open>globH5N5\<close>, which may raise), \<open>re.sub(ext + '$', '', path)\<close>, \<open>os.path.sep\<close> and
  \<open>os.path.pathsep\<close>.\<close>

record fs_env =
  getcwd :: string
  splitPath :: "string option \<Rightarrow> string list"
  path_components :: "string \<Rightarrow> PathComponents"
  isUrl :: "string \<Rightarrow> bool"
  isabs :: "string \<Rightarrow> bool"
  path_join :: "string \<Rightarrow> string \<Rightarrow> string"
  expanduser :: "string \<Rightarrow> string"
  glob :: "string \<Rightarrow> string list"
  globH5N5 :: "string \<Rightarrow> string \<Rightarrow> string + string list"
  re_sub_end :: "string \<Rightarrow> string \<Rightarrow> string"
  path_sep :: char
  pathsep :: string

definition pathIsHdf5 :: "fs_env \<Rightarrow> string \<Rightarrow> bool" where
  "pathIsHdf5 env path = (extension (path_components env path) \<in> set [''.ilp'', ''.h5'', ''.hdf5''])"

definition pathIsN5 :: "fs_env \<Rightarrow> string \<Rightarrow> bool" where
  "pathIsN5 env path = (extension (path_components env path) \<in> set [''.n5''])"

definition fileHasInternalPaths :: "fs_env \<Rightarrow> string \<Rightarrow> bool" where
  "fileHasInternalPaths env path = (pathIsHdf5 env path \<or> pathIsN5 env path)"

text \<open>\<open>cwd or os.getcwd()\<close>.\<close>

definition cwd_or_getcwd :: "fs_env \<Rightarrow> string option \<Rightarrow> string" where
  "cwd_or_getcwd env cwd = (case cwd of Some c \<Rightarrow> if c \<noteq> [] then c else getcwd env | None \<Rightarrow> getcwd env)"

text \<open>The inner loop of \<open>expandPath\<close>, over the paths one component globs to. \<open>gip\<close> is
  \<open>globInternalPaths\<close>; \<open>acc\<close> is \<open>expanded_paths\<close>.\<close>

fun expand_unglobbed ::
  "(string \<Rightarrow> string \<Rightarrow> error + string list) \<Rightarrow> fs_env \<Rightarrow> PathComponents \<Rightarrow>
   string list \<Rightarrow> string list \<Rightarrow> error + string list" where
  "expand_unglobbed gip env pc [] acc = Inr acc"
| "expand_unglobbed gip env pc (ext_path # ps) acc =
     (case (if fileHasInternalPaths env ext_path \<and> truthy (internalPath pc)
            then internalPath pc else None) of
        None \<Rightarrow> expand_unglobbed gip env pc ps (acc @ [ext_path])
      | Some internal \<Rightarrow>
          (case gip ext_path internal of
             Inl e \<Rightarrow> Inl e
           | Inr internal_paths \<Rightarrow>
               expand_unglobbed gip env pc ps
                 (acc @ map (path_join env ext_path) internal_paths)))"

text \<open>What \<open>glob.glob\<close> is called with for one component: its external path, made
  absolute against the working directory, with the home directory expanded.\<close>

definition glob_target :: "fs_env \<Rightarrow> string \<Rightarrow> PathComponents \<Rightarrow> string" where
  "glob_target env cwd pc =
     expanduser env
       (if isabs env (externalPath pc) then externalPath pc
        else path_join env cwd (externalPath pc))"

text \<open>The outer loop of \<open>expandPath\<close>, over the components of the path.\<close>

fun expand_components ::
  "(string \<Rightarrow> string \<Rightarrow> error + string list) \<Rightarrow> fs_env \<Rightarrow> string \<Rightarrow>
   PathComponents list \<Rightarrow> string list \<Rightarrow> error + string list" where
  "expand_components gip env cwd [] acc = Inr acc"
| "expand_components gip env cwd (pc # cs) acc =
     (let unglobbed_paths = glob env (glob_target env cwd pc)
      in if unglobbed_paths = [] then Inl (PyException (CouldNotFindFile (externalPath pc)))
         else
           (case expand_unglobbed gip env pc unglobbed_paths acc of
              Inl e \<Rightarrow> Inl e
            | Inr acc' \<Rightarrow> expand_components gip env cwd cs acc'))"

definition expandPath_body ::
  "(string \<Rightarrow> string \<Rightarrow> error + string list) \<Rightarrow> fs_env \<Rightarrow> string \<Rightarrow> string option \<Rightarrow>
   error + string list" where
  "expandPath_body gip env file_path cwd =
     (case expand_components gip env (cwd_or_getcwd env cwd)
             (map (path_components env) (splitPath env (Some file_path))) [] of
        Inl e \<Rightarrow> Inl e
      | Inr expanded \<Rightarrow> Inr (sort expanded))"

text \<open>The loop of \<open>globInternalPaths\<close>: the internal paths of every file, collected.\<close>

fun glob_files :: "fs_env \<Rightarrow> string \<Rightarrow> string list \<Rightarrow> string list \<Rightarrow> error + string list" where
  "glob_files env glob_str [] common = Inr common"
| "glob_files env glob_str (path # ps) common =
     (if pathIsHdf5 env path \<or> pathIsN5 env path
      then
        (case globH5N5 env path (lstrip_slash glob_str) of
           Inl e \<Rightarrow> Inl (External e)
         | Inr found \<Rightarrow> glob_files env glob_str ps (common @ found))
      else Inl (PyException (NotH5N5 path)))"

definition globInternalPaths_body ::
  "(string \<Rightarrow> string option \<Rightarrow> error + string list) \<Rightarrow> fs_env \<Rightarrow> string \<Rightarrow> string \<Rightarrow>
   error + string list" where
  "globInternalPaths_body expand env file_path glob_str =
     (case expand file_path None of
        Inl e \<Rightarrow> Inl e
      | Inr paths \<Rightarrow>
          (case glob_files env glob_str paths [] of
             Inl e \<Rightarrow> Inl e
           | Inr common_internal_paths \<Rightarrow> Inr (sort (remdups common_internal_paths))))"

text \<open>\<open>expandPath\<close> and \<open>globInternalPaths\<close> call each other. The first argument is the
  depth of calls the interpreter still allows; when it is used up Python raises
  \<open>RecursionError\<close>.\<close>

primrec expandPath :: "nat \<Rightarrow> fs_env \<Rightarrow> string \<Rightarrow> string option \<Rightarrow> error + string list" where
  "expandPath 0 env file_path cwd = Inl RecursionError"
| "expandPath (Suc depth) env file_path cwd =
     expandPath_body (globInternalPaths_body (expandPath depth env) env) env file_path cwd"

definition globInternalPaths :: "nat \<Rightarrow> fs_env \<Rightarrow> string \<Rightarrow> string \<Rightarrow> error + string list" where
  "globInternalPaths depth env file_path glob_str =
     globInternalPaths_body (expandPath depth env) env file_path glob_str"

text \<open>\<open>create_nickname\<close>. The f-string of its \<open>raise\<close> reads the name \<open>filePath\<close>, which
  is not defined in that scope (the parameter is \<open>filepath\<close>), so evaluating the message
  raises \<open>NameError\<close> before any \<open>Exception\<close> is built.\<close>

definition create_nickname ::
  "nat \<Rightarrow> fs_env \<Rightarrow> string \<Rightarrow> string option \<Rightarrow> error + (string \<times> string list)" where
  "create_nickname depth env filepath cwd =
     (case expandPath depth env filepath cwd of
        Inl e \<Rightarrow> Inl e
      | Inr expanded \<Rightarrow>
          let components = map (path_components env) expanded
          in if list_ex (\<lambda>pc. extension pc \<noteq> extension (hd components)) components
             then Inl (NameError ''filePath'')
             else
               let external_nickname = commonprefix
                     (map (\<lambda>pc. re_sub_end env (extension pc) (externalPath pc)) components);
                   internal_nickname = lstrip_slash (commonprefix
                     (map (\<lambda>ep. case internalPath (path_components env ep) of
                                    Some p \<Rightarrow> p | None \<Rightarrow> []) expanded));
                   suffix = (if internal_nickname \<noteq> []
                             then ''-'' @ replace_slash_dash internal_nickname else [])
               in if external_nickname \<noteq> []
                  then Inr (last (py_split [path_sep env] [] external_nickname) @ suffix, expanded)
                  else
                    (case expanded of
                       [] \<Rightarrow> Inl IndexError
                     | ep # eps \<Rightarrow>
                         Inr (''stack_at-'' @ externalPath (path_components env ep) @ suffix,
                              expanded)))"

text \<open>The namespace a \<open>JsonConfigParser\<close> returns, and \<open>updateFromJson\<close>.\<close>

record json_namespace =
  js_filepath :: "string option"
  js_drange :: "(real \<times> real) option"
  js_nickname :: "string option"
  js_axistags :: "string option"
  js_subvolume_roi :: "(nat list \<times> nat list) option"

definition updateFromJson :: "json_namespace \<Rightarrow> DatasetInfo \<Rightarrow> error + DatasetInfo" where
  "updateFromJson ns info =
     (let info1 = info\<lparr>filePath := str_or (js_filepath ns) (filePath info),
                       drange := py_or (js_drange ns) (drange info)\<rparr>
      in if \<not> truthy (js_nickname ns) \<and> nickname info1 = None
         then Inl (AttributeError ''nickname'')
         else Inr (info1\<lparr>nickname := str_or (js_nickname ns) (nickname info1),
                          axistags := (case js_axistags ns of Some a \<Rightarrow> Some a
                                       | None \<Rightarrow> axistags info1),
                          subvolume_roi := py_or (js_subvolume_roi ns) (subvolume_roi info1)\<rparr>))"

text \<open>The arguments of the constructor.\<close>

record init_args =
  arg_filepath :: "string option"
  arg_jsonNamespace :: "json_namespace option"
  arg_cwd :: "string option"
  arg_preloaded_array :: "array option"
  arg_sequence_axis :: "string option"
  arg_allowLabels :: bool
  arg_subvolume_roi :: "(nat list \<times> nat list) option"
  arg_location :: Location
  arg_axistags :: "string option"
  arg_drange :: "(real \<times> real) option"
  arg_display_mode :: string
  arg_nickname :: string
  arg_original_axistags :: "string option"
  arg_laneShape :: "nat list option"
  arg_normalizeDisplay :: "bool option"
  arg_laneDtype :: "string option"

definition assert_message :: string where
  "assert_message = ''You can't provide filepath and a preloaded_array''"

text \<open>The assignments of the constructor before its first branch.\<close>

definition init_fields :: "fs_env \<Rightarrow> init_args \<Rightarrow> DatasetInfo" where
  "init_fields env a =
     \<lparr>preloaded_array = arg_preloaded_array a,
      filePath = arg_filepath a,
      allowLabels = arg_allowLabels a,
      drange = arg_drange a,
      normalizeDisplay = (case arg_normalizeDisplay a of
                            None \<Rightarrow> Some (arg_drange a \<noteq> None) | Some b \<Rightarrow> Some b),
      sequenceAxis = arg_sequence_axis a,
      axistags = arg_axistags a,
      original_axistags = arg_original_axistags a,
      laneShape = arg_laneShape a,
      laneDtype = arg_laneDtype a,
      realDataSource = True,
      subvolume_roi = arg_subvolume_roi a,
      location = arg_location a,
      display_mode = arg_display_mode a,
      fromstack = False,
      original_paths = splitPath env (arg_filepath a),
      nickname = None,
      expanded_paths = None\<rparr>"

text \<open>The three-way branch of the constructor. In its first branch the body names
  \<open>Location.PreloadedArray\<close>; \<open>Location\<close> is an attribute of the class and not a name of
  the method's scope, so that statement raises \<open>NameError\<close>.\<close>

definition init_branch :: "nat \<Rightarrow> fs_env \<Rightarrow> init_args \<Rightarrow> DatasetInfo \<Rightarrow> error + DatasetInfo" where
  "init_branch depth env a info =
     (case (case arg_preloaded_array a of None \<Rightarrow> Inr False | Some arr \<Rightarrow> arr_truth arr) of
        Inl e \<Rightarrow> Inl (External e)
      | Inr True \<Rightarrow> Inl (NameError ''Location'')
      | Inr False \<Rightarrow>
          (case (if truthy (arg_filepath a) \<and> arg_location a = FileSystem
                 then arg_filepath a else None) of
             None \<Rightarrow> Inr (info\<lparr>filePath := arg_filepath a\<rparr>)
           | Some filepath \<Rightarrow>
               if isUrl env filepath then Inr (info\<lparr>filePath := arg_filepath a\<rparr>)
               else
                 (case create_nickname depth env filepath
                         (Some (cwd_or_getcwd env (arg_cwd a))) of
                    Inl e \<Rightarrow> Inl e
                  | Inr (nick, paths) \<Rightarrow>
                      let info1 = info\<lparr>location := FileSystem, nickname := Some nick,
                                        expanded_paths := Some paths,
                                        filePath := Some (py_join (pathsep env) paths),
                                        fromstack := (length paths > 1)\<rparr>
                      in if fromstack info1 \<and> \<not> truthy (arg_sequence_axis a)
                         then Inl (PyException (Text
                           ''sequence_axis must be specified when creating DatasetInfo out of stacks''))
                         else Inr (info1\<lparr>sequenceAxis := arg_sequence_axis a\<rparr>))))"

text \<open>\<open>DatasetInfo.__init__\<close>: the assertion, the assignments, the branch, then the JSON
  namespace and the nickname argument.\<close>

definition DatasetInfo_init :: "nat \<Rightarrow> fs_env \<Rightarrow> init_args \<Rightarrow> error + DatasetInfo" where
  "DatasetInfo_init depth env a =
     (if \<not> (arg_preloaded_array a = None \<or> \<not> truthy (arg_filepath a))
      then Inl (AssertionError assert_message)
      else
        (case init_branch depth env a (init_fields env a) of
           Inl e \<Rightarrow> Inl e
         | Inr info \<Rightarrow>
             (case (case arg_jsonNamespace a of
                      None \<Rightarrow> Inr info | Some ns \<Rightarrow> updateFromJson ns info) of
                Inl e \<Rightarrow> Inl e
              | Inr info' \<Rightarrow>
                  Inr (if arg_nickname a \<noteq> [] then info'\<lparr>nickname := Some (arg_nickname a)\<rparr>
                       else info'))))"

section \<open>Metadata\<close>

text \<open>Values of the metadata dictionary that \<open>setupOutputs\<close> injects. A dictionary is an
  association list in insertion order; \<open>d[k] = v\<close> is \<open>AList.update k v d\<close> and a lookup is
  \<open>map_of d k\<close>.\<close>

datatype pyval =
    VStr string
  | VStrs "string list"
  | VRange "real \<times> real"
  | VBool bool
  | VAxistags string
  | VRoi "nat list \<times> nat list"

type_synonym pydict = "(string \<times> pyval) list"

text \<open>Modelled from the spec: \<open>lazyflow.metaDict.MetaDict\<close> is not among the source files.
  A MetaDict holds the shape (the extents, in axis order), the element type, the axis tags
  (the string of their keys) and any further keys; the shape and the axis tags have the
  same length.\<close>

record MetaDict =
  meta_shape :: "nat list"
  meta_dtype :: string
  meta_axistags :: string
  meta_extra :: pydict

text \<open>Modelled from the spec: \<open>getAxisKeys\<close> and \<open>getTaggedShape\<close> of the MetaDict, the
  latter an ordered dictionary built from the pairs of axis key and extent.\<close>

definition getAxisKeys :: "MetaDict \<Rightarrow> char list" where
  "getAxisKeys m = meta_axistags m"

definition getTaggedShape :: "MetaDict \<Rightarrow> (char \<times> nat) list" where
  "getTaggedShape m =
     fold (\<lambda>(k, v). AList.update k v) (zip (meta_axistags m) (meta_shape m)) []"

text \<open>Modelled from the spec: the output of \<open>OpMetadataInjector\<close>. Merging is key-wise
  override; keys that are not set pass through unchanged.\<close>

definition inject :: "pydict \<Rightarrow> MetaDict \<Rightarrow> MetaDict" where
  "inject md m =
     m\<lparr>meta_axistags := (case map_of md ''axistags'' of
                            Some (VAxistags a) \<Rightarrow> a | _ \<Rightarrow> meta_axistags m),
       meta_extra := fold (\<lambda>(k, v). AList.update k v) md (meta_extra m)\<rparr>"

text \<open>Modelled from the spec: the output of \<open>OpReorderAxes\<close>, which transposes the axes
  into the given order and inserts a singleton axis for every key the input does not
  have.\<close>

definition reorder_axes :: "string \<Rightarrow> MetaDict \<Rightarrow> MetaDict" where
  "reorder_axes order m =
     m\<lparr>meta_axistags := order,
       meta_shape := map (\<lambda>k. case map_of (getTaggedShape m) k of Some v \<Rightarrow> v | None \<Rightarrow> 1) order\<rparr>"

section \<open>OpDataSelection\<close>

text \<open>The \<open>forceAxisOrder\<close> argument of the constructor: a list of axis orders, or, as other
  callers pass it, a single string, or \<open>None\<close> or \<open>False\<close> (\<open>NoOrder\<close>).\<close>

datatype force_order = NoOrder | OrderStr string | OrderList "string list"

fun force_truthy :: "force_order \<Rightarrow> bool" where
  "force_truthy NoOrder = False"
| "force_truthy (OrderStr s) = (s \<noteq> [])"
| "force_truthy (OrderList orders) = (orders \<noteq> [])"

text \<open>The child operators \<open>setupOutputs\<close> constructs, each with what it is configured
  with: the four readers, the metadata injector (its input's metadata and the injected
  dictionary) and the reordering operator (the axis order and its input's metadata).\<close>

datatype child =
    OpStreamingH5N5Reader "string option" "string option"
  | OpArrayPiper array
  | OpInputDataReader "(nat list \<times> nat list) option" string "string option" "string option"
  | OpZeroDefault "nat list option" "string option" "(real \<times> real) option" "string option"
  | OpMetadataInjector MetaDict pydict
  | OpReorderAxes string MetaDict

text \<open>What lies outside the source files: whether configuring a reader raises and, if
  not, the metadata of its output slot; \<open>get_default_axisordering\<close>; the keys of
  \<open>meta.getShape5D().to_squeezed_dict()\<close> (constructing the 5D shape may raise); and the
  order in which \<open>set.pop()\<close> hands out the elements of a set of characters.\<close>

record ds_env =
  reader_output :: "child \<Rightarrow> string + MetaDict"
  get_default_axisordering :: "nat list \<Rightarrow> string"
  squeezed_keys :: "MetaDict \<Rightarrow> string + char list"
  set_pop_order :: "char list \<Rightarrow> char list"

text \<open>The operator. \<open>opReaders\<close> is \<open>self._opReaders\<close>. An output slot is \<open>None\<close> while it
  is not connected and has no value, and otherwise holds its metadata or value.
  \<open>children\<close> are the child operators constructed with \<open>parent=self\<close> that have not been
  cleaned up, in the order of their creation; \<open>cleaned\<close> lists the \<open>cleanUp()\<close> calls made
  so far, oldest first.\<close>

record OpDataSelection =
  forceAxisOrder :: force_order
  opReaders :: "child list"
  RoleName :: string
  ProjectFile :: "string option"
  WorkingDirectory :: string
  Dataset :: DatasetInfo
  Image :: "MetaDict option"
  AllowLabels :: "bool option"
  NonTransposedImage :: "MetaDict option"
  ImageName :: "string option option"
  children :: "child list"
  cleaned :: "child list"

text \<open>\<open>OpDataSelection.__init__\<close>, with the values of the input slots.\<close>

definition OpDataSelection_init ::
  "force_order \<Rightarrow> string \<Rightarrow> string option \<Rightarrow> string \<Rightarrow> DatasetInfo \<Rightarrow> OpDataSelection" where
  "OpDataSelection_init order role project_file working_directory info =
     \<lparr>forceAxisOrder = order, opReaders = [], RoleName = role, ProjectFile = project_file,
      WorkingDirectory = working_directory, Dataset = info, Image = None, AllowLabels = None,
      NonTransposedImage = None, ImageName = None, children = [], cleaned = []\<rparr>"

definition internalCleanup :: "OpDataSelection \<Rightarrow> OpDataSelection" where
  "internalCleanup s =
     (if length (opReaders s) > 0
      then s\<lparr>Image := None, NonTransposedImage := None,
             cleaned := cleaned s @ rev (opReaders s),
             children := fold remove1 (rev (opReaders s)) (children s),
             opReaders := []\<rparr>
      else s)"

definition construct :: "child \<Rightarrow> OpDataSelection \<Rightarrow> OpDataSelection" where
  "construct c s = s\<lparr>children := children s @ [c]\<rparr>"

definition append_opReader :: "child \<Rightarrow> OpDataSelection \<Rightarrow> OpDataSelection" where
  "append_opReader c s = s\<lparr>opReaders := opReaders s @ [c]\<rparr>"

text \<open>A reader is constructed, then configured through its input slots, and only then
  appended to \<open>_opReaders\<close>.\<close>

definition configure ::
  "ds_env \<Rightarrow> child \<Rightarrow> OpDataSelection \<Rightarrow> (error \<times> OpDataSelection) + (OpDataSelection \<times> MetaDict)" where
  "configure env c s =
     (case reader_output env c of
        Inl e \<Rightarrow> Inl (External e, construct c s)
      | Inr m \<Rightarrow> Inr (append_opReader c (construct c s), m))"

text \<open>The choice of the reader by the location of the dataset.\<close>

definition make_reader ::
  "ds_env \<Rightarrow> OpDataSelection \<Rightarrow> (error \<times> OpDataSelection) + (OpDataSelection \<times> MetaDict)" where
  "make_reader env s =
     (let datasetInfo = Dataset s
      in case location datasetInfo of
           ProjectInternal \<Rightarrow>
             (case ProjectFile s of
                None \<Rightarrow> Inl (SlotNotReadyError, construct (OpStreamingH5N5Reader None None) s)
              | Some f \<Rightarrow>
                  configure env (OpStreamingH5N5Reader (Some f) (filePath datasetInfo)) s)
         | PreloadedArray \<Rightarrow>
             (case preloaded_array datasetInfo of
                None \<Rightarrow> Inl (AssertionError [], s)
              | Some a \<Rightarrow>
                  configure env
                    (OpArrayPiper
                      (case arr_axistags a of
                         None \<Rightarrow> a\<lparr>arr_axistags :=
                                      Some (get_default_axisordering env (arr_shape a))\<rparr>
                       | Some t \<Rightarrow> a)) s)
         | FileSystem \<Rightarrow>
             if realDataSource datasetInfo
             then configure env
                    (OpInputDataReader (subvolume_roi datasetInfo) (WorkingDirectory s)
                       (sequenceAxis datasetInfo) (filePath datasetInfo)) s
             else configure env
                    (OpZeroDefault (laneShape datasetInfo) (laneDtype datasetInfo)
                       (drange datasetInfo) (axistags datasetInfo)) s)"

text \<open>The loop that reinterprets the axes when the dataset info names as many axes as
  the provider has non-singleton ones: \<open>info_keys.pop(0)\<close> raises \<open>IndexError\<close> on an empty
  list and \<open>dummy_axes.pop()\<close> raises \<open>KeyError\<close> on an empty set.\<close>

fun reinterpret_axes ::
  "char list \<Rightarrow> char list \<Rightarrow> char list \<Rightarrow> char list \<Rightarrow> string \<Rightarrow> error + string" where
  "reinterpret_axes [] squeezed info_keys dummy_axes out_axes = Inr out_axes"
| "reinterpret_axes (k # ks) squeezed info_keys dummy_axes out_axes =
     (if k \<in> set squeezed
      then (case info_keys of
              [] \<Rightarrow> Inl IndexError
            | i # rest \<Rightarrow> reinterpret_axes ks squeezed rest dummy_axes (out_axes @ [i]))
      else (case dummy_axes of
              [] \<Rightarrow> Inl KeyError
            | d # rest \<Rightarrow> reinterpret_axes ks squeezed info_keys rest (out_axes @ [d])))"

text \<open>The axis tags to inject, when the dataset info has any. \<open>Point5D.LABELS\<close> are the
  five keys t, x, y, z, c.\<close>

definition injected_axistags :: "ds_env \<Rightarrow> string \<Rightarrow> MetaDict \<Rightarrow> error + string" where
  "injected_axistags env info_keys m =
     (case squeezed_keys env m of
        Inl e \<Rightarrow> Inl (External e)
      | Inr provider_squeezed \<Rightarrow>
          if length info_keys = length (meta_shape m) then Inr info_keys
          else if int (length info_keys) = int (length (meta_shape m)) - 1 \<and>
                  set (getAxisKeys m) - set info_keys = set ''c''
          then Inr (info_keys @ ''c'')
          else if length info_keys = length provider_squeezed
          then reinterpret_axes (map fst (getTaggedShape m)) provider_squeezed info_keys
                 (set_pop_order env (filter (\<lambda>k. k \<notin> set info_keys) ''txyzc'')) []
          else Inl (PyException (CannotReinterpret (getTaggedShape m) info_keys)))"

text \<open>The metadata dictionary of \<open>setupOutputs\<close>, key by key in the order of the source.\<close>

definition channel_names :: "string \<Rightarrow> MetaDict \<Rightarrow> string list" where
  "channel_names role_name m =
     (let num_channels = (case map_of (getTaggedShape m) CHR ''c'' of None \<Rightarrow> 0 | Some n \<Rightarrow> n)
      in if num_channels > 1
         then map (\<lambda>i. role_name @ ''-'' @ str_nat i) [0..<num_channels]
         else [role_name])"

definition metadata_drange :: "DatasetInfo \<Rightarrow> MetaDict \<Rightarrow> pydict \<Rightarrow> pydict" where
  "metadata_drange datasetInfo m md =
     (case drange datasetInfo of
        Some r \<Rightarrow> AList.update ''drange'' (VRange r) md
      | None \<Rightarrow>
          if meta_dtype m = ''uint8'' then AList.update ''drange'' (VRange (0, 255)) md
          else md)"

definition set_if :: "string \<Rightarrow> pyval option \<Rightarrow> pydict \<Rightarrow> pydict" where
  "set_if k v md = (case v of None \<Rightarrow> md | Some x \<Rightarrow> AList.update k x md)"

definition build_metadata :: "ds_env \<Rightarrow> DatasetInfo \<Rightarrow> string \<Rightarrow> MetaDict \<Rightarrow> error + pydict" where
  "build_metadata env datasetInfo role_name m =
     (let md1 = AList.update ''display_mode'' (VStr (display_mode datasetInfo)) [];
          md2 = AList.update ''channel_names'' (VStrs (channel_names role_name m)) md1;
          md3 = metadata_drange datasetInfo m md2;
          md4 = set_if ''normalizeDisplay'' (map_option VBool (normalizeDisplay datasetInfo)) md3
      in case (case axistags datasetInfo of
                 None \<Rightarrow> Inr md4
               | Some info_keys \<Rightarrow>
                   (case injected_axistags env info_keys m of
                      Inl e \<Rightarrow> Inl e
                    | Inr tags \<Rightarrow> Inr (AList.update ''axistags'' (VAxistags tags) md4))) of
           Inl e \<Rightarrow> Inl e
         | Inr md5 \<Rightarrow>
             Inr (set_if ''subvolume_roi'' (map_option VRoi (subvolume_roi datasetInfo))
                   (set_if ''original_axistags''
                      (map_option VAxistags (original_axistags datasetInfo)) md5)))"

text \<open>From the reader to the connection of \<open>_NonTransposedImage\<close>: the reader, the
  metadata, the injector. The result is the operator and the metadata of
  \<open>providerSlot\<close>, which by now is the output of the injector.\<close>

definition inject_stage ::
  "ds_env \<Rightarrow> OpDataSelection \<Rightarrow> (error \<times> OpDataSelection) + (OpDataSelection \<times> MetaDict)" where
  "inject_stage env s =
     (case make_reader env s of
        Inl raised \<Rightarrow> Inl raised
      | Inr (s1, m) \<Rightarrow>
          (case build_metadata env (Dataset s1) (RoleName s1) m of
             Inl e \<Rightarrow> Inl (e, s1)
           | Inr metadata \<Rightarrow>
               let opMetadataInjector = OpMetadataInjector m metadata;
                   s2 = append_opReader opMetadataInjector (construct opMetadataInjector s1)
               in Inr (s2\<lparr>NonTransposedImage := Some (inject metadata m)\<rparr>, inject metadata m)))"

definition xy_message :: message where
  "xy_message = Text ''Data must always have at leaset the axes x and y for ilastik to work.''"

text \<open>The axes of extent greater than one, and the choice of the output order.\<close>

definition minimal_axes :: "MetaDict \<Rightarrow> char set" where
  "minimal_axes m = set (map fst (filter (\<lambda>(k, v). v > 1) (getTaggedShape m)))"

definition choose_output_order :: "force_order \<Rightarrow> MetaDict \<Rightarrow> error + string" where
  "choose_output_order force m =
     (if force_truthy force
      then (case force of
              OrderList orders \<Rightarrow>
                let candidate_orders = filter (\<lambda>order. minimal_axes m \<subseteq> set order) orders
                in if length candidate_orders = 0
                   then Inl (DatasetConstraintError ''DataSelection''
                               (IncompatibleAxes (getAxisKeys m) orders))
                   else Inr (hd (sort_key length candidate_orders))
            | other \<Rightarrow>
                Inl (AssertionError ''forceAxisOrder should be a *list* of preferred axis orders''))
      else Inr (getAxisKeys m))"

definition with_channel :: "string \<Rightarrow> string" where
  "with_channel output_order =
     (if CHR ''c'' \<notin> set output_order then output_order @ ''c'' else output_order)"

text \<open>From the check of the spatial axes to the connection of \<open>Image\<close>.\<close>

definition order_stage ::
  "OpDataSelection \<Rightarrow> MetaDict \<Rightarrow> (error \<times> OpDataSelection) + OpDataSelection" where
  "order_stage s m =
     (if CHR ''x'' \<notin> set (meta_axistags m) \<or> CHR ''y'' \<notin> set (meta_axistags m)
      then Inl (DatasetConstraintError ''DataSelection'' xy_message, s)
      else
        (case choose_output_order (forceAxisOrder s) m of
           Inl e \<Rightarrow> Inl (e, s)
         | Inr chosen \<Rightarrow>
             let op5 = OpReorderAxes (with_channel chosen) m;
                 s3 = append_opReader op5 (construct op5 s)
             in Inr (s3\<lparr>Image := Some (reorder_axes (with_channel chosen) m)\<rparr>)))"

text \<open>The last statements: \<open>AllowLabels\<close>, the nickname and \<open>ImageName\<close>. Reading
  \<open>datasetInfo.nickname\<close> raises \<open>AttributeError\<close> when the attribute was never assigned.
  A nickname in the metadata that is not a string is not modelled.\<close>

definition name_stage :: "OpDataSelection \<Rightarrow> (error \<times> OpDataSelection) + OpDataSelection" where
  "name_stage s =
     (let s1 = s\<lparr>AllowLabels := Some (allowLabels (Dataset s))\<rparr>;
          s2 = (case Image s1 of
                  Some im \<Rightarrow>
                    (case map_of (meta_extra im) ''nickname'' of
                       Some (VStr n) \<Rightarrow> s1\<lparr>Dataset := (Dataset s1)\<lparr>nickname := Some n\<rparr>\<rparr>
                     | other \<Rightarrow> s1)
                | None \<Rightarrow> s1)
      in case nickname (Dataset s2) of
           None \<Rightarrow> Inl (AttributeError ''nickname'', s2)
         | Some imageName \<Rightarrow>
             Inr (s2\<lparr>ImageName :=
                       Some (if imageName = [] then filePath (Dataset s2) else Some imageName)\<rparr>))"

text \<open>The body of the \<open>try\<close> statement, and \<open>setupOutputs\<close> itself: clean up, run the
  body, and on any exception clean up again and raise it again.\<close>

definition setupOutputs_body ::
  "ds_env \<Rightarrow> OpDataSelection \<Rightarrow> (error \<times> OpDataSelection) + OpDataSelection" where
  "setupOutputs_body env s =
     (case inject_stage env s of
        Inl raised \<Rightarrow> Inl raised
      | Inr (s2, m) \<Rightarrow>
          (case order_stage s2 m of
             Inl raised \<Rightarrow> Inl raised
           | Inr s3 \<Rightarrow> name_stage s3))"

definition setupOutputs ::
  "ds_env \<Rightarrow> OpDataSelection \<Rightarrow> (error \<times> OpDataSelection) + OpDataSelection" where
  "setupOutputs env s =
     (case setupOutputs_body env (internalCleanup s) of
        Inl (e, s') \<Rightarrow> Inl (e, internalCleanup s')
      | Inr s' \<Rightarrow> Inr s')"

text \<open>The states an operator can be in: the one its constructor leaves, and those that
  \<open>setupOutputs\<close>, \<open>internalCleanup\<close> and new values on the input slots lead to.\<close>

inductive reachable :: "OpDataSelection \<Rightarrow> bool" where
  reach_init: "reachable (OpDataSelection_init order role pf wd info)"
| reach_inputs:
    "reachable s \<Longrightarrow>
     reachable (s\<lparr>RoleName := role, ProjectFile := pf, WorkingDirectory := wd, Dataset := info\<rparr>)"
| reach_cleanup: "reachable s \<Longrightarrow> reachable (internalCleanup s)"
| reach_setup: "reachable s \<Longrightarrow> setupOutputs env s = Inr s' \<Longrightarrow> reachable s'"
| reach_raise: "reachable s \<Longrightarrow> setupOutputs env s = Inl (e, s') \<Longrightarrow> reachable s'"

section \<open>Auxiliary notions for the proofs\<close>

text \<open>While \<open>_opReaders\<close> is empty, neither image output is connected.\<close>

definition wired :: "OpDataSelection \<Rightarrow> bool" where
  "wired s = (opReaders s \<noteq> [] \<or> (Image s = None \<and> NonTransposedImage s = None))"

text \<open>Whether an exception is the constraint-violation signal.\<close>

fun constraint_error :: "error \<Rightarrow> bool" where
  "constraint_error (DatasetConstraintError name explanation) = True"
| "constraint_error other = False"

section \<open>Concrete datasets and environments\<close>

text \<open>A dataset info as the constructor leaves it for a file on disk.\<close>

definition info_file :: "string \<Rightarrow> DatasetInfo" where
  "info_file path =
     \<lparr>preloaded_array = None, filePath = Some path, allowLabels = True, drange = None,
      normalizeDisplay = Some False, sequenceAxis = None, axistags = None,
      original_axistags = None, laneShape = None, laneDtype = None, realDataSource = True,
      subvolume_roi = None, location = FileSystem, display_mode = ''default'',
      fromstack = False, original_paths = [path], nickname = Some ''data'',
      expanded_paths = Some [path]\<rparr>"

definition meta_of :: "nat list \<Rightarrow> string \<Rightarrow> MetaDict" where
  "meta_of sh keys = \<lparr>meta_shape = sh, meta_dtype = ''uint8'', meta_axistags = keys, meta_extra = []\<rparr>"

text \<open>Readers over four files: a 5D volume of shape (1,1,50,50,1) with axes tzyxc, a 2D
  image, a 3D volume, and a file with the axes t and z only. Any other file cannot be
  read.\<close>

definition test_reader :: "child \<Rightarrow> string + MetaDict" where
  "test_reader c =
     (case c of
        OpInputDataReader roi wd axis (Some path) \<Rightarrow>
          if path = ''/data/5d.h5'' then Inr (meta_of [1, 1, 50, 50, 1] ''tzyxc'')
          else if path = ''/data/2d.png'' then Inr (meta_of [50, 50] ''yx'')
          else if path = ''/data/3d.h5'' then Inr (meta_of [10, 50, 50] ''zyx'')
          else if path = ''/data/tz.h5'' then Inr (meta_of [10, 3] ''tz'')
          else Inl ''Input file does not exist''
      | other \<Rightarrow> Inl ''Input file does not exist'')"

definition test_env :: ds_env where
  "test_env =
     \<lparr>reader_output = test_reader,
      get_default_axisordering = (\<lambda>sh. take (length sh) ''tzyxc''),
      squeezed_keys = (\<lambda>m. Inr (map fst (filter (\<lambda>(k, v). v \<noteq> 1) (getTaggedShape m)))),
      set_pop_order = (\<lambda>ks. ks)\<rparr>"

definition test_op :: "string list \<Rightarrow> string \<Rightarrow> OpDataSelection" where
  "test_op orders path =
     OpDataSelection_init (OrderList orders) ''Raw Data'' None ''/work'' (info_file path)"

text \<open>Such an operator after its \<open>setupOutputs\<close> has run.\<close>

definition configured_op :: "string list \<Rightarrow> string \<Rightarrow> OpDataSelection" where
  "configured_op orders path =
     (case setupOutputs test_env (test_op orders path) of
        Inr s \<Rightarrow> s | Inl (e, s) \<Rightarrow> s)"

text \<open>A directory with two images of different extensions, and nothing else.\<close>

definition test_components :: "string \<Rightarrow> PathComponents" where
  "test_components p =
     \<lparr>externalPath = p, internalPath = None,
      extension = (if p = ''/stack/a.png'' then ''.png''
                   else if p = ''/stack/b.jpg'' then ''.jpg'' else [])\<rparr>"

definition test_fs :: fs_env where
  "test_fs =
     \<lparr>getcwd = ''/work'',
      splitPath = (\<lambda>p. case p of None \<Rightarrow> [] | Some s \<Rightarrow> py_split '':'' [] s),
      path_components = test_components,
      isUrl = (\<lambda>p. take 7 p = ''http://''),
      isabs = (\<lambda>p. take 1 p = ''/''),
      path_join = (\<lambda>a b. a @ ''/'' @ b),
      expanduser = (\<lambda>p. p),
      glob = (\<lambda>p. if p = ''/stack/*'' then [''/stack/a.png'', ''/stack/b.jpg''] else []),
      globH5N5 = (\<lambda>p g. Inl ''cannot open''),
      re_sub_end = (\<lambda>ext p. p),
      path_sep = CHR ''/'',
      pathsep = '':''\<rparr>"

definition test_args :: "string option \<Rightarrow> array option \<Rightarrow> init_args" where
  "test_args path arr =
     \<lparr>arg_filepath = path, arg_jsonNamespace = None, arg_cwd = None,
      arg_preloaded_array = arr, arg_sequence_axis = None, arg_allowLabels = True,
      arg_subvolume_roi = None, arg_location = FileSystem, arg_axistags = None,
      arg_drange = None, arg_display_mode = ''default'', arg_nickname = [],
      arg_original_axistags = None, arg_laneShape = None, arg_normalizeDisplay = None,
      arg_laneDtype = None\<rparr>"

definition test_array :: array where
  "test_array = \<lparr>arr_shape = [1], arr_dtype = ''uint8'', arr_axistags = Some ''x'',
                  arr_truth = Inr True\<rparr>"

text \<open>The export of the test of \<open>OpExportDvidVolume\<close>, against a server that accepts
  everything.\<close>

definition env_dvid_ok :: export_env where
  "env_dvid_ok =
     \<lparr>input_wait = Inr \<lparr>vol_shape = [4, 10, 100, 200, 4], vol_dtype = ''uint8'',
                         vol_axistags = ''tzyxc''\<rparr>,
      create_volume = (\<lambda>h u d m. Inr ()),
      modify_subvolume = (\<lambda>h u d start stop v. Inr ())\<rparr>"

definition op_export_test :: OpExportDvidVolume where
  "op_export_test =
     \<lparr>NodeDataUrl = ''http://localhost:8000/api/node/abcde/indices_data'',
      transpose_axes = True, progress = []\<rparr>"

text \<open>Whether an exception is an \<open>AssertionError\<close>.\<close>

fun assertion :: "error \<Rightarrow> bool" where
  "assertion (AssertionError msg) = True"
| "assertion other = False"

text \<open>Whether an exception is the \<open>InvalidDimensionalityError\<close> of the operator.\<close>

fun dimensionality_error :: "error \<Rightarrow> bool" where
  "dimensionality_error (InvalidDimensionalityError msg) = True"
| "dimensionality_error other = False"

section \<open>Properties of the export\<close>


lemma run_export_trace:
  assumes "run_export env ex0 = Inr ex'"
  shows "progress ex' = progress ex0 @ [0, 5, 100]"
  using assms
  unfolding run_export_def Let_def progressSignal_def
  by (auto split: list.splits sum.splits if_splits)

text \<open>
  Claim C7. Whenever \<open>run_export\<close> returns normally, the values it has passed to the
  progress signal during the run are integers between 0 and 100, the first is 0, the last
  is 100, and they never decrease (they are exactly 0, 5, 100).
\<close>

theorem run_export_progress:
  assumes "run_export env ex0 = Inr ex'"
  shows "\<exists>vs. progress ex' = progress ex0 @ vs \<and> vs = [0, 5, 100] \<and>
              list_all (\<lambda>v. 0 \<le> v \<and> v \<le> 100) vs \<and> hd vs = 0 \<and> last vs = 100 \<and> sorted vs"
  using run_export_trace [OF assms] by simp

lemma run_export_test:
  "run_export env_dvid_ok op_export_test = Inr (op_export_test\<lparr>progress := [0, 5, 100]\<rparr>)"
  by (simp add: run_export_def env_dvid_ok_def op_export_test_def progressSignal_def Let_def)

theorem run_export_progress_witness:
  "run_export env_dvid_ok op_export_test = Inr (op_export_test\<lparr>progress := [0, 5, 100]\<rparr>) \<and>
   (\<exists>vs. progress (op_export_test\<lparr>progress := [0, 5, 100]\<rparr>) = progress op_export_test @ vs \<and>
         vs = [0, 5, 100] \<and> list_all (\<lambda>v. 0 \<le> v \<and> v \<le> 100) vs \<and>
         hd vs = 0 \<and> last vs = 100 \<and> sorted vs)"
  using run_export_progress [OF run_export_test] run_export_test by simp

section \<open>Cleanup\<close>

lemma internalCleanup_opReaders: "opReaders (internalCleanup s) = []"
  by (simp add: internalCleanup_def)

lemma internalCleanup_frame:
  "forceAxisOrder (internalCleanup s) = forceAxisOrder s"
  "Dataset (internalCleanup s) = Dataset s"
  "RoleName (internalCleanup s) = RoleName s"
  "AllowLabels (internalCleanup s) = AllowLabels s"
  "ImageName (internalCleanup s) = ImageName s"
  by (simp_all add: internalCleanup_def)

lemma internalCleanup_cleaned: "cleaned (internalCleanup s) = cleaned s @ rev (opReaders s)"
  by (simp add: internalCleanup_def)

lemma internalCleanup_twice: "internalCleanup (internalCleanup s) = internalCleanup s"
  by (simp add: internalCleanup_def)

lemma internalCleanup_images:
  assumes "wired s"
  shows "Image (internalCleanup s) = None \<and> NonTransposedImage (internalCleanup s) = None"
  using assms by (auto simp: internalCleanup_def wired_def)

lemma internalCleanup_wired:
  assumes "opReaders s \<noteq> [] \<or> wired s"
  shows "wired (internalCleanup s)"
  using assms by (auto simp: internalCleanup_def wired_def)

section \<open>What each stage of setupOutputs changes\<close>

lemma make_reader_Inr:
  assumes "make_reader env s = Inr (s1, m)"
  shows "\<exists>c. s1 = append_opReader c (construct c s) \<and> reader_output env c = Inr m"
  using assms
  unfolding make_reader_def configure_def Let_def
  by (auto split: Location.splits option.splits if_splits sum.splits)

lemma make_reader_Inl:
  assumes "make_reader env s = Inl (e, sx)"
  shows "sx = s \<or> (\<exists>c. sx = construct c s)"
  using assms
  unfolding make_reader_def configure_def Let_def
  by (auto split: Location.splits option.splits if_splits sum.splits)

lemma inject_stage_Inr:
  assumes "inject_stage env s = Inr (s2, m2)"
  shows "\<exists>r m md. reader_output env r = Inr m \<and>
           build_metadata env (Dataset s) (RoleName s) m = Inr md \<and> m2 = inject md m \<and>
           s2 = s\<lparr>opReaders := opReaders s @ [r, OpMetadataInjector m md],
                  children := children s @ [r, OpMetadataInjector m md],
                  NonTransposedImage := Some m2\<rparr>"
proof -
  from assms obtain s1 m where mr: "make_reader env s = Inr (s1, m)"
    unfolding inject_stage_def by (auto split: sum.splits)
  then obtain r where r: "s1 = append_opReader r (construct r s)" "reader_output env r = Inr m"
    using make_reader_Inr by blast
  from assms mr obtain md where md: "build_metadata env (Dataset s1) (RoleName s1) m = Inr md"
    unfolding inject_stage_def by (auto split: sum.splits)
  from assms mr md have "m2 = inject md m"
    and "s2 = (append_opReader (OpMetadataInjector m md)
                 (construct (OpMetadataInjector m md) s1))\<lparr>NonTransposedImage := Some m2\<rparr>"
    unfolding inject_stage_def by (auto simp: Let_def)
  with r md show ?thesis
    apply (intro exI [of _ r])
    apply (intro exI [of _ m])
    apply (intro exI [of _ md])
    apply (simp add: append_opReader_def construct_def)
    done
qed

lemma inject_stage_Inl:
  assumes "inject_stage env s = Inl (e, sx)"
  shows "Image sx = Image s \<and> NonTransposedImage sx = NonTransposedImage s \<and>
         AllowLabels sx = AllowLabels s \<and> ImageName sx = ImageName s \<and>
         cleaned sx = cleaned s \<and>
         (opReaders sx = opReaders s \<or> (\<exists>c. opReaders sx = opReaders s @ [c]))"
proof (cases "make_reader env s")
  case (Inl raised)
  with assms have "make_reader env s = Inl (e, sx)"
    unfolding inject_stage_def by simp
  from make_reader_Inl [OF this] show ?thesis
    by (auto simp: construct_def)
next
  case (Inr ok)
  obtain s1 m where ok: "ok = (s1, m)" by (cases ok)
  with Inr obtain c where "s1 = append_opReader c (construct c s)"
    using make_reader_Inr by blast
  moreover from assms Inr ok have "sx = s1"
    unfolding inject_stage_def by (auto split: sum.splits simp: Let_def)
  ultimately show ?thesis
    by (auto simp: construct_def append_opReader_def)
qed

lemma order_stage_Inl:
  assumes "order_stage s m = Inl (e, sx)"
  shows "sx = s"
  using assms unfolding order_stage_def
  by (auto split: if_splits sum.splits simp: Let_def)

lemma order_stage_Inr:
  assumes "order_stage s m = Inr s3"
  shows "\<exists>chosen. choose_output_order (forceAxisOrder s) m = Inr chosen \<and>
           s3 = s\<lparr>opReaders := opReaders s @ [OpReorderAxes (with_channel chosen) m],
                  children := children s @ [OpReorderAxes (with_channel chosen) m],
                  Image := Some (reorder_axes (with_channel chosen) m)\<rparr>"
  using assms unfolding order_stage_def
  by (auto split: if_splits sum.splits simp: Let_def append_opReader_def construct_def)

lemma name_stage_frame:
  assumes "name_stage s = Inr s' \<or> name_stage s = Inl (e, s')"
  shows "opReaders s' = opReaders s \<and> Image s' = Image s \<and>
         NonTransposedImage s' = NonTransposedImage s \<and> cleaned s' = cleaned s \<and>
         children s' = children s"
  using assms unfolding name_stage_def
  by (auto split: option.splits pyval.splits simp: Let_def)

lemma name_stage_with_nickname:
  assumes "nickname (Dataset s) = Some n"
  shows "\<exists>s'. name_stage s = Inr s'"
  using assms unfolding name_stage_def
  by (auto split: option.splits pyval.splits simp: Let_def)

section \<open>The states an operator reaches\<close>

lemma setupOutputs_Inr_opReaders:
  assumes "setupOutputs env s = Inr s'"
  shows "opReaders s' \<noteq> []"
proof -
  from assms have body: "setupOutputs_body env (internalCleanup s) = Inr s'"
    unfolding setupOutputs_def by (auto split: sum.splits)
  then obtain s2 m where "inject_stage env (internalCleanup s) = Inr (s2, m)"
    unfolding setupOutputs_body_def by (auto split: sum.splits)
  with body obtain s3 where s3: "order_stage s2 m = Inr s3" "name_stage s3 = Inr s'"
    unfolding setupOutputs_body_def by (auto split: sum.splits)
  from order_stage_Inr [OF s3(1)] have "opReaders s3 \<noteq> []" by auto
  with name_stage_frame [of s3 s'] s3(2) show ?thesis by simp
qed

lemma setupOutputs_body_Inl:
  assumes "setupOutputs_body env s = Inl (e, sx)" and "wired s"
  shows "opReaders sx \<noteq> [] \<or> wired sx"
proof (cases "inject_stage env s")
  case (Inl raised)
  with assms(1) have "inject_stage env s = Inl (e, sx)"
    unfolding setupOutputs_body_def by simp
  from inject_stage_Inl [OF this] assms(2) show ?thesis
    by (auto simp: wired_def)
next
  case (Inr ok)
  obtain s2 m where ok: "ok = (s2, m)" by (cases ok)
  from inject_stage_Inr Inr ok have s2: "opReaders s2 \<noteq> []" by fastforce
  show ?thesis
  proof (cases "order_stage s2 m")
    case (Inl raised)
    with assms(1) Inr ok have "order_stage s2 m = Inl (e, sx)"
      unfolding setupOutputs_body_def by simp
    from order_stage_Inl [OF this] s2 show ?thesis by simp
  next
    case (Inr s3)
    with assms(1) \<open>inject_stage env s = Inr ok\<close> ok have "name_stage s3 = Inl (e, sx)"
      unfolding setupOutputs_body_def by simp
    with name_stage_frame [of s3 sx e] have "opReaders sx = opReaders s3" by simp
    moreover from order_stage_Inr [OF Inr] have "opReaders s3 \<noteq> []" by auto
    ultimately show ?thesis by simp
  qed
qed

lemma setupOutputs_Inl_wired:
  assumes "setupOutputs env s = Inl (e, s')" and "wired s"
  shows "wired s'"
proof -
  from assms(1) obtain sx where sx: "setupOutputs_body env (internalCleanup s) = Inl (e, sx)"
    and s': "s' = internalCleanup sx"
    unfolding setupOutputs_def by (auto split: sum.splits)
  from assms(2) have "wired (internalCleanup s)" by (simp add: internalCleanup_wired)
  from setupOutputs_body_Inl [OF sx this] s' show ?thesis
    by (simp add: internalCleanup_wired)
qed

lemma reachable_wired:
  assumes "reachable s"
  shows "wired s"
  using assms
proof (induction rule: reachable.induct)
  case (reach_init order role pf wd info)
  show ?case by (simp add: wired_def OpDataSelection_init_def)
next
  case (reach_inputs s role pf wd info)
  then show ?case by (simp add: wired_def)
next
  case (reach_cleanup s)
  then show ?case by (simp add: internalCleanup_wired)
next
  case (reach_setup s env s')
  from setupOutputs_Inr_opReaders [OF reach_setup(2)] show ?case by (simp add: wired_def)
next
  case (reach_raise s env e s')
  from setupOutputs_Inl_wired [OF reach_raise(2) reach_raise(3)] show ?case .
qed

lemma configured_op_5d:
  "setupOutputs test_env (test_op [''tczyx''] ''/data/5d.h5'') =
     Inr (configured_op [''tczyx''] ''/data/5d.h5'')"
  by (simp add: configured_op_def setupOutputs_def setupOutputs_body_def inject_stage_def
      make_reader_def configure_def construct_def append_opReader_def test_op_def test_env_def
      test_reader_def OpDataSelection_init_def info_file_def internalCleanup_def
      build_metadata_def channel_names_def metadata_drange_def set_if_def getTaggedShape_def
      meta_of_def order_stage_def choose_output_order_def minimal_axes_def with_channel_def
      reorder_axes_def name_stage_def inject_def getAxisKeys_def Let_def)

lemma configured_op_5d_opReaders:
  "opReaders (configured_op [''tczyx''] ''/data/5d.h5'') =
     [OpInputDataReader None ''/work'' None (Some ''/data/5d.h5''),
      OpMetadataInjector (meta_of [1, 1, 50, 50, 1] ''tzyxc'')
        [(''display_mode'', VStr ''default''), (''channel_names'', VStrs [''Raw Data'']),
         (''drange'', VRange (0, 255)), (''normalizeDisplay'', VBool False)],
      OpReorderAxes ''tczyx''
        (inject [(''display_mode'', VStr ''default''), (''channel_names'', VStrs [''Raw Data'']),
                 (''drange'', VRange (0, 255)), (''normalizeDisplay'', VBool False)]
           (meta_of [1, 1, 50, 50, 1] ''tzyxc''))] \<and>
   cleaned (configured_op [''tczyx''] ''/data/5d.h5'') = []"
  by (simp add: configured_op_def setupOutputs_def setupOutputs_body_def inject_stage_def
      make_reader_def configure_def construct_def append_opReader_def test_op_def test_env_def
      test_reader_def OpDataSelection_init_def info_file_def internalCleanup_def
      build_metadata_def channel_names_def metadata_drange_def set_if_def getTaggedShape_def
      meta_of_def order_stage_def choose_output_order_def minimal_axes_def with_channel_def
      reorder_axes_def name_stage_def inject_def getAxisKeys_def Let_def)

text \<open>
  Claim C8. In every state an operator reaches, one call of \<open>internalCleanup\<close> leaves the
  \<open>Image\<close> and \<open>_NonTransposedImage\<close> outputs disconnected and the reader list empty, calls
  \<open>cleanUp()\<close> on the readers in the reverse of the order in which they were appended
  (created), and a second call changes nothing.
\<close>

theorem internalCleanup_idempotent:
  assumes "reachable s"
  shows "Image (internalCleanup s) = None \<and> NonTransposedImage (internalCleanup s) = None \<and>
         opReaders (internalCleanup s) = [] \<and>
         cleaned (internalCleanup s) = cleaned s @ rev (opReaders s) \<and>
         internalCleanup (internalCleanup s) = internalCleanup s"
  using internalCleanup_images [OF reachable_wired [OF assms]]
  by (simp add: internalCleanup_opReaders internalCleanup_cleaned internalCleanup_twice)

theorem internalCleanup_idempotent_witness:
  "Image (internalCleanup (configured_op [''tczyx''] ''/data/5d.h5'')) = None \<and>
   NonTransposedImage (internalCleanup (configured_op [''tczyx''] ''/data/5d.h5'')) = None \<and>
   opReaders (internalCleanup (configured_op [''tczyx''] ''/data/5d.h5'')) = [] \<and>
   cleaned (internalCleanup (configured_op [''tczyx''] ''/data/5d.h5'')) =
     rev (opReaders (configured_op [''tczyx''] ''/data/5d.h5'')) \<and>
   length (opReaders (configured_op [''tczyx''] ''/data/5d.h5'')) = 3 \<and>
   internalCleanup (internalCleanup (configured_op [''tczyx''] ''/data/5d.h5'')) =
     internalCleanup (configured_op [''tczyx''] ''/data/5d.h5'')"
proof -
  have "reachable (test_op [''tczyx''] ''/data/5d.h5'')"
    unfolding test_op_def by (rule reach_init)
  then have "reachable (configured_op [''tczyx''] ''/data/5d.h5'')"
    using configured_op_5d by (rule reach_setup)
  from internalCleanup_idempotent [OF this] configured_op_5d_opReaders
  show ?thesis by simp
qed

section \<open>The check of the spatial axes and the choice of the axis order\<close>

lemma inject_stage_facts:
  assumes "inject_stage env s0 = Inr (s2, m)"
  shows "opReaders s2 \<noteq> []" "forceAxisOrder s2 = forceAxisOrder s0" "Dataset s2 = Dataset s0"
    "AllowLabels s2 = AllowLabels s0" "ImageName s2 = ImageName s0" "Image s2 = Image s0"
  using inject_stage_Inr [OF assms] by auto

lemma setupOutputs_after_inject:
  assumes "inject_stage env (internalCleanup s) = Inr (s2, m)"
  shows "setupOutputs env s =
           (case order_stage s2 m of
              Inl (e, sx) \<Rightarrow> Inl (e, internalCleanup sx)
            | Inr s3 \<Rightarrow>
                (case name_stage s3 of
                   Inl (e, sx) \<Rightarrow> Inl (e, internalCleanup sx)
                 | Inr s' \<Rightarrow> Inr s'))"
  using assms unfolding setupOutputs_def setupOutputs_body_def
  by (simp split: sum.splits prod.splits)

lemma order_stage_xy:
  assumes "CHR ''x'' \<in> set (meta_axistags m)" and "CHR ''y'' \<in> set (meta_axistags m)"
  shows "order_stage s m =
           (case choose_output_order (forceAxisOrder s) m of
              Inl e \<Rightarrow> Inl (e, s)
            | Inr chosen \<Rightarrow>
                Inr (s\<lparr>opReaders := opReaders s @ [OpReorderAxes (with_channel chosen) m],
                       children := children s @ [OpReorderAxes (with_channel chosen) m],
                       Image := Some (reorder_axes (with_channel chosen) m)\<rparr>))"
  using assms
  by (simp add: order_stage_def Let_def append_opReader_def construct_def split: sum.splits)

lemma choose_output_order_not_xy:
  assumes "choose_output_order force m = Inl e"
  shows "e \<noteq> DatasetConstraintError ''DataSelection'' xy_message"
  using assms
  by (auto simp: choose_output_order_def xy_message_def Let_def
      split: if_splits force_order.splits)

lemma name_stage_Inl_error:
  assumes "name_stage s = Inl (e, sx)"
  shows "e = AttributeError ''nickname''"
  using assms unfolding name_stage_def
  by (auto split: option.splits pyval.splits simp: Let_def)

lemma choose_output_order_list:
  assumes "orders \<noteq> []"
  shows "choose_output_order (OrderList orders) m =
           (if filter (\<lambda>c. minimal_axes m \<subseteq> set c) orders = []
            then Inl (DatasetConstraintError ''DataSelection''
                        (IncompatibleAxes (getAxisKeys m) orders))
            else Inr (hd (sort_key length (filter (\<lambda>c. minimal_axes m \<subseteq> set c) orders))))"
  using assms by (simp add: choose_output_order_def Let_def)

text \<open>The head of a stable sort is the first of the smallest elements.\<close>

lemma hd_insort_key:
  "hd (insort_key f x ys) = (if ys = [] \<or> f x \<le> f (hd ys) then x else hd ys)"
  by (cases ys) auto

lemma first_shortest:
  fixes f :: "'a \<Rightarrow> nat"
  assumes "filter q xs \<noteq> []"
  shows "\<exists>before chosen after. xs = before @ chosen # after \<and>
           chosen = hd (sort_key f (filter q xs)) \<and> q chosen \<and>
           (\<forall>c \<in> set before. q c \<longrightarrow> f chosen < f c) \<and>
           (\<forall>c \<in> set after. q c \<longrightarrow> f chosen \<le> f c)"
  using assms
proof (induction xs)
  case Nil
  then show ?case by simp
next
  case (Cons x xs)
  show ?case
  proof (cases "q x")
    case False
    with Cons.prems have "filter q xs \<noteq> []" by simp
    from Cons.IH [OF this] obtain before chosen after where
      IH: "xs = before @ chosen # after" "chosen = hd (sort_key f (filter q xs))" "q chosen"
        "\<forall>c \<in> set before. q c \<longrightarrow> f chosen < f c" "\<forall>c \<in> set after. q c \<longrightarrow> f chosen \<le> f c"
      by blast
    from IH False have "x # xs = (x # before) @ chosen # after \<and>
        chosen = hd (sort_key f (filter q (x # xs))) \<and> q chosen \<and>
        (\<forall>c \<in> set (x # before). q c \<longrightarrow> f chosen < f c) \<and>
        (\<forall>c \<in> set after. q c \<longrightarrow> f chosen \<le> f c)"
      by simp
    then show ?thesis by blast
  next
    case True
    show ?thesis
    proof (cases "filter q xs = []")
      case empty: True
      then have "\<forall>c \<in> set xs. \<not> q c" by (simp add: filter_empty_conv)
      with True empty have "x # xs = [] @ x # xs \<and>
          x = hd (sort_key f (filter q (x # xs))) \<and> q x \<and>
          (\<forall>c \<in> set []. q c \<longrightarrow> f x < f c) \<and> (\<forall>c \<in> set xs. q c \<longrightarrow> f x \<le> f c)"
        by simp
      then show ?thesis by blast
    next
      case some: False
      from Cons.IH [OF this] obtain before chosen after where
        IH: "xs = before @ chosen # after" "chosen = hd (sort_key f (filter q xs))" "q chosen"
          "\<forall>c \<in> set before. q c \<longrightarrow> f chosen < f c" "\<forall>c \<in> set after. q c \<longrightarrow> f chosen \<le> f c"
        by blast
      from some have sorted_ne: "sort_key f (filter q xs) \<noteq> []"
        by (metis length_0_conv length_sort)
      have hd_eq: "hd (sort_key f (filter q (x # xs))) = (if f x \<le> f chosen then x else chosen)"
        using True sorted_ne IH(2) by (simp add: hd_insort_key)
      show ?thesis
      proof (cases "f x \<le> f chosen")
        case le: True
        have "\<forall>c \<in> set xs. q c \<longrightarrow> f x \<le> f c"
        proof (intro ballI impI)
          fix c assume c: "c \<in> set xs" "q c"
          with IH(1) have "c \<in> set before \<or> c = chosen \<or> c \<in> set after" by auto
          with IH(4,5) c(2) have "f chosen \<le> f c" by (auto simp: less_imp_le)
          with le show "f x \<le> f c" by simp
        qed
        with True hd_eq le have "x # xs = [] @ x # xs \<and>
            x = hd (sort_key f (filter q (x # xs))) \<and> q x \<and>
            (\<forall>c \<in> set []. q c \<longrightarrow> f x < f c) \<and> (\<forall>c \<in> set xs. q c \<longrightarrow> f x \<le> f c)"
          by simp
        then show ?thesis by blast
      next
        case gt: False
        with IH hd_eq have "x # xs = (x # before) @ chosen # after \<and>
            chosen = hd (sort_key f (filter q (x # xs))) \<and> q chosen \<and>
            (\<forall>c \<in> set (x # before). q c \<longrightarrow> f chosen < f c) \<and>
            (\<forall>c \<in> set after. q c \<longrightarrow> f chosen \<le> f c)"
          by simp
        then show ?thesis by blast
      qed
    qed
  qed
qed

lemma reorder_axes_fields:
  "meta_axistags (reorder_axes out m) = out"
  "meta_shape (reorder_axes out m) =
     map (\<lambda>k. case map_of (getTaggedShape m) k of Some v \<Rightarrow> v | None \<Rightarrow> 1) out"
  by (simp_all add: reorder_axes_def)

text \<open>
  Claim C2. Let \<open>setupOutputs\<close> get as far as the metadata \<open>m\<close> of the provider slot (the
  output of the metadata injector). If \<open>m\<close> lacks the axis x or the axis y, the call raises
  the DatasetConstraintError of the data selection applet, and afterwards no output is
  ready that was not ready before: \<open>Image\<close> and \<open>_NonTransposedImage\<close> are disconnected,
  \<open>AllowLabels\<close> and \<open>ImageName\<close> are as they were. If \<open>m\<close> has both axes, that error is not
  raised.
\<close>

theorem setupOutputs_requires_x_and_y:
  assumes "inject_stage env (internalCleanup s) = Inr (s2, m)"
  shows "(CHR ''x'' \<notin> set (meta_axistags m) \<or> CHR ''y'' \<notin> set (meta_axistags m) \<longrightarrow>
            (\<exists>s'. setupOutputs env s =
                    Inl (DatasetConstraintError ''DataSelection'' xy_message, s') \<and>
                  Image s' = None \<and> NonTransposedImage s' = None \<and>
                  AllowLabels s' = AllowLabels s \<and> ImageName s' = ImageName s \<and>
                  opReaders s' = [])) \<and>
         (CHR ''x'' \<in> set (meta_axistags m) \<and> CHR ''y'' \<in> set (meta_axistags m) \<longrightarrow>
            (\<forall>s'. setupOutputs env s \<noteq>
                    Inl (DatasetConstraintError ''DataSelection'' xy_message, s')))"
proof (intro conjI impI)
  assume missing: "CHR ''x'' \<notin> set (meta_axistags m) \<or> CHR ''y'' \<notin> set (meta_axistags m)"
  then have "order_stage s2 m = Inl (DatasetConstraintError ''DataSelection'' xy_message, s2)"
    by (auto simp: order_stage_def)
  with setupOutputs_after_inject [OF assms]
  have "setupOutputs env s =
          Inl (DatasetConstraintError ''DataSelection'' xy_message, internalCleanup s2)"
    by simp
  moreover from inject_stage_facts [OF assms]
  have "Image (internalCleanup s2) = None" "NonTransposedImage (internalCleanup s2) = None"
    "AllowLabels (internalCleanup s2) = AllowLabels s"
    "ImageName (internalCleanup s2) = ImageName s"
    by (simp_all add: internalCleanup_def internalCleanup_frame)
  ultimately show "\<exists>s'. setupOutputs env s =
                    Inl (DatasetConstraintError ''DataSelection'' xy_message, s') \<and>
                  Image s' = None \<and> NonTransposedImage s' = None \<and>
                  AllowLabels s' = AllowLabels s \<and> ImageName s' = ImageName s \<and>
                  opReaders s' = []"
    by (simp add: internalCleanup_opReaders)
next
  assume present: "CHR ''x'' \<in> set (meta_axistags m) \<and> CHR ''y'' \<in> set (meta_axistags m)"
  show "\<forall>s'. setupOutputs env s \<noteq>
                Inl (DatasetConstraintError ''DataSelection'' xy_message, s')"
  proof (intro allI notI)
    fix s'
    assume raised: "setupOutputs env s =
                      Inl (DatasetConstraintError ''DataSelection'' xy_message, s')"
    show False
    proof (cases "choose_output_order (forceAxisOrder s2) m")
      case (Inl e)
      with present order_stage_xy [of m s2] have "order_stage s2 m = Inl (e, s2)" by simp
      with setupOutputs_after_inject [OF assms] raised
      have "e = DatasetConstraintError ''DataSelection'' xy_message" by simp
      with choose_output_order_not_xy [OF Inl] show False by simp
    next
      case (Inr chosen)
      with present order_stage_xy [of m s2] obtain s3 where s3: "order_stage s2 m = Inr s3"
        by simp
      with setupOutputs_after_inject [OF assms] raised obtain sx where
        "name_stage s3 = Inl (DatasetConstraintError ''DataSelection'' xy_message, sx)"
        by (auto split: sum.splits)
      from name_stage_Inl_error [OF this] show False by simp
    qed
  qed
qed

lemma inject_stage_5d:
  "\<exists>s2. inject_stage test_env (internalCleanup (test_op [''tczyx''] ''/data/5d.h5'')) =
          Inr (s2, inject [(''display_mode'', VStr ''default''),
                           (''channel_names'', VStrs [''Raw Data'']),
                           (''drange'', VRange (0, 255)), (''normalizeDisplay'', VBool False)]
                     (meta_of [1, 1, 50, 50, 1] ''tzyxc'')) \<and>
         opReaders s2 =
           [OpInputDataReader None ''/work'' None (Some ''/data/5d.h5''),
            OpMetadataInjector (meta_of [1, 1, 50, 50, 1] ''tzyxc'')
              [(''display_mode'', VStr ''default''), (''channel_names'', VStrs [''Raw Data'']),
               (''drange'', VRange (0, 255)), (''normalizeDisplay'', VBool False)]]"
  by (simp add: inject_stage_def make_reader_def configure_def construct_def
      append_opReader_def test_op_def test_env_def test_reader_def OpDataSelection_init_def
      info_file_def internalCleanup_def build_metadata_def channel_names_def
      metadata_drange_def set_if_def getTaggedShape_def meta_of_def Let_def)

lemma inject_stage_tz:
  "\<exists>s2. inject_stage test_env (internalCleanup (test_op [''tczyx''] ''/data/tz.h5'')) =
          Inr (s2, inject [(''display_mode'', VStr ''default''),
                           (''channel_names'', VStrs [''Raw Data'']),
                           (''drange'', VRange (0, 255)), (''normalizeDisplay'', VBool False)]
                     (meta_of [10, 3] ''tz''))"
  by (simp add: inject_stage_def make_reader_def configure_def construct_def
      append_opReader_def test_op_def test_env_def test_reader_def OpDataSelection_init_def
      info_file_def internalCleanup_def build_metadata_def channel_names_def
      metadata_drange_def set_if_def getTaggedShape_def meta_of_def Let_def)

theorem setupOutputs_requires_x_and_y_witness:
  "\<exists>s'. setupOutputs test_env (test_op [''tczyx''] ''/data/tz.h5'') =
           Inl (DatasetConstraintError ''DataSelection'' xy_message, s') \<and>
         Image s' = None \<and> NonTransposedImage s' = None \<and>
         AllowLabels s' = None \<and> ImageName s' = None \<and> opReaders s' = []"
proof -
  from inject_stage_tz obtain s2 where
    "inject_stage test_env (internalCleanup (test_op [''tczyx''] ''/data/tz.h5'')) =
       Inr (s2, inject [(''display_mode'', VStr ''default''),
                        (''channel_names'', VStrs [''Raw Data'']),
                        (''drange'', VRange (0, 255)), (''normalizeDisplay'', VBool False)]
                  (meta_of [10, 3] ''tz''))"
    by blast
  from setupOutputs_requires_x_and_y [OF this]
  show ?thesis
    by (simp add: inject_def meta_of_def test_op_def OpDataSelection_init_def)
qed

text \<open>
  Claim C1, amended. Let \<open>setupOutputs\<close> get as far as the choice of the output order:
  the provider slot has the metadata \<open>m\<close>, which has the axes x and y, and
  \<open>forceAxisOrder\<close> is a non-empty list. If no candidate contains every axis of extent
  greater than one, the call raises the DatasetConstraintError of the data selection
  applet. Otherwise the order chosen is a candidate that contains those axes, is strictly
  shorter than every such candidate before it in the list and at most as long as every
  such candidate after it; a channel axis c is appended when the chosen order has none;
  the reordering operator for that order is appended to the readers and \<open>Image\<close> is
  connected to its output, whose axes are that order and whose extents are those of the
  provider, 1 for an axis the provider lacks; and with a dataset info that has a nickname
  the call returns with \<open>Image\<close> so connected. In particular a provider of shape
  (1,1,50,50,1) with the axes tzyxc and the single candidate tczyx give the order tczyx
  and the shape (1,1,1,50,50).
\<close>

theorem setupOutputs_output_order:
  assumes "inject_stage env (internalCleanup s) = Inr (s2, m)"
    and "CHR ''x'' \<in> set (meta_axistags m)" and "CHR ''y'' \<in> set (meta_axistags m)"
    and "forceAxisOrder s = OrderList orders" and "orders \<noteq> []"
  shows "((\<forall>c \<in> set orders. \<not> minimal_axes m \<subseteq> set c) \<longrightarrow>
            (\<exists>s'. setupOutputs env s =
                    Inl (DatasetConstraintError ''DataSelection''
                           (IncompatibleAxes (getAxisKeys m) orders), s') \<and>
                  Image s' = None)) \<and>
         ((\<exists>c \<in> set orders. minimal_axes m \<subseteq> set c) \<longrightarrow>
            (\<exists>before chosen after out.
                 orders = before @ chosen # after \<and> minimal_axes m \<subseteq> set chosen \<and>
                 (\<forall>c \<in> set before. minimal_axes m \<subseteq> set c \<longrightarrow> length chosen < length c) \<and>
                 (\<forall>c \<in> set after. minimal_axes m \<subseteq> set c \<longrightarrow> length chosen \<le> length c) \<and>
                 out = (if CHR ''c'' \<in> set chosen then chosen else chosen @ ''c'') \<and>
                 (\<exists>s3 im. order_stage s2 m = Inr s3 \<and>
                    opReaders s3 = opReaders s2 @ [OpReorderAxes out m] \<and>
                    Image s3 = Some im \<and> meta_axistags im = out \<and>
                    meta_shape im =
                      map (\<lambda>k. case map_of (getTaggedShape m) k of Some v \<Rightarrow> v | None \<Rightarrow> 1) out) \<and>
                 (\<forall>n. nickname (Dataset s) = Some n \<longrightarrow>
                    (\<exists>s'. setupOutputs env s = Inr s' \<and>
                       Image s' = Some (reorder_axes out m) \<and>
                       last (opReaders s') = OpReorderAxes out m)))) \<and>
         (meta_axistags m = ''tzyxc'' \<and> meta_shape m = [1, 1, 50, 50, 1] \<and>
          orders = [''tczyx''] \<longrightarrow>
            (\<exists>s3 im. order_stage s2 m = Inr s3 \<and> Image s3 = Some im \<and>
               meta_axistags im = ''tczyx'' \<and> meta_shape im = [1, 1, 1, 50, 50]))"
proof -
  let ?q = "\<lambda>c. minimal_axes m \<subseteq> set c"
  note facts = inject_stage_facts [OF assms(1)]
  have force: "forceAxisOrder s2 = OrderList orders"
    using facts(2) assms(4) by (simp add: internalCleanup_frame)
  have dataset: "Dataset s2 = Dataset s"
    using facts(3) by (simp add: internalCleanup_frame)
  note whole = setupOutputs_after_inject [OF assms(1)]
  note stage = order_stage_xy [OF assms(2) assms(3), of s2]
  note choice = choose_output_order_list [OF assms(5), of m]
  have scenario: "meta_axistags m = ''tzyxc'' \<and> meta_shape m = [1, 1, 50, 50, 1] \<and>
      orders = [''tczyx''] \<longrightarrow>
        (\<exists>s3 im. order_stage s2 m = Inr s3 \<and> Image s3 = Some im \<and>
           meta_axistags im = ''tczyx'' \<and> meta_shape im = [1, 1, 1, 50, 50])"
  proof (intro impI, elim conjE)
    assume a: "meta_axistags m = ''tzyxc''" "meta_shape m = [1, 1, 50, 50, 1]"
      "orders = [''tczyx'']"
    then have tagged: "getTaggedShape m =
        [(CHR ''t'', 1), (CHR ''z'', 1), (CHR ''y'', 50), (CHR ''x'', 50), (CHR ''c'', 1)]"
      by (simp add: getTaggedShape_def)
    then have "minimal_axes m = {CHR ''y'', CHR ''x''}"
      by (simp add: minimal_axes_def)
    with a(3) have "choose_output_order (OrderList orders) m = Inr ''tczyx''"
      by (simp add: choose_output_order_def Let_def)
    with stage force tagged show "\<exists>s3 im. order_stage s2 m = Inr s3 \<and> Image s3 = Some im \<and>
           meta_axistags im = ''tczyx'' \<and> meta_shape im = [1, 1, 1, 50, 50]"
      by (simp add: with_channel_def reorder_axes_def)
  qed
  show ?thesis
  proof (cases "filter ?q orders = []")
    case True
    then have none: "\<forall>c \<in> set orders. \<not> ?q c" by (simp add: filter_empty_conv)
    from True stage force choice
    have "order_stage s2 m =
            Inl (DatasetConstraintError ''DataSelection''
                   (IncompatibleAxes (getAxisKeys m) orders), s2)"
      by simp
    with whole have "setupOutputs env s =
            Inl (DatasetConstraintError ''DataSelection''
                   (IncompatibleAxes (getAxisKeys m) orders), internalCleanup s2)"
      by simp
    moreover from facts(1) have "Image (internalCleanup s2) = None"
      by (simp add: internalCleanup_def)
    ultimately have raised: "\<exists>s'. setupOutputs env s =
                    Inl (DatasetConstraintError ''DataSelection''
                           (IncompatibleAxes (getAxisKeys m) orders), s') \<and>
                  Image s' = None"
      by simp
    from none have no_candidate: "\<not> (\<exists>c \<in> set orders. ?q c)" by blast
    show ?thesis
    proof (intro conjI impI)
      show "\<exists>s'. setupOutputs env s =
                    Inl (DatasetConstraintError ''DataSelection''
                           (IncompatibleAxes (getAxisKeys m) orders), s') \<and>
                  Image s' = None"
        by (rule raised)
    next
      assume "\<exists>c \<in> set orders. ?q c"
      with no_candidate show "\<exists>before chosen after out.
                 orders = before @ chosen # after \<and> minimal_axes m \<subseteq> set chosen \<and>
                 (\<forall>c \<in> set before. minimal_axes m \<subseteq> set c \<longrightarrow> length chosen < length c) \<and>
                 (\<forall>c \<in> set after. minimal_axes m \<subseteq> set c \<longrightarrow> length chosen \<le> length c) \<and>
                 out = (if CHR ''c'' \<in> set chosen then chosen else chosen @ ''c'') \<and>
                 (\<exists>s3 im. order_stage s2 m = Inr s3 \<and>
                    opReaders s3 = opReaders s2 @ [OpReorderAxes out m] \<and>
                    Image s3 = Some im \<and> meta_axistags im = out \<and>
                    meta_shape im =
                      map (\<lambda>k. case map_of (getTaggedShape m) k of Some v \<Rightarrow> v | None \<Rightarrow> 1) out) \<and>
                 (\<forall>n. nickname (Dataset s) = Some n \<longrightarrow>
                    (\<exists>s'. setupOutputs env s = Inr s' \<and>
                       Image s' = Some (reorder_axes out m) \<and>
                       last (opReaders s') = OpReorderAxes out m))"
        by (rule notE)
    next
      assume "meta_axistags m = ''tzyxc'' \<and> meta_shape m = [1, 1, 50, 50, 1] \<and>
          orders = [''tczyx'']"
      with scenario show "\<exists>s3 im. order_stage s2 m = Inr s3 \<and> Image s3 = Some im \<and>
               meta_axistags im = ''tczyx'' \<and> meta_shape im = [1, 1, 1, 50, 50]"
        by (rule mp)
    qed
  next
    case False
    then have some: "\<not> (\<forall>c \<in> set orders. \<not> ?q c)" by (simp add: filter_empty_conv)
    from first_shortest [OF False, of length] obtain before chosen after where
      pick: "orders = before @ chosen # after" "chosen = hd (sort_key length (filter ?q orders))"
        "?q chosen" "\<forall>c \<in> set before. ?q c \<longrightarrow> length chosen < length c"
        "\<forall>c \<in> set after. ?q c \<longrightarrow> length chosen \<le> length c"
      by blast
    define out where "out = (if CHR ''c'' \<in> set chosen then chosen else chosen @ ''c'')"
    then have out: "with_channel chosen = out" by (simp add: with_channel_def)
    define s3 where "s3 = s2\<lparr>opReaders := opReaders s2 @ [OpReorderAxes out m],
                                children := children s2 @ [OpReorderAxes out m],
                                Image := Some (reorder_axes out m)\<rparr>"
    from False stage force choice pick(2) out have s3: "order_stage s2 m = Inr s3"
      by (simp add: s3_def)
    have at_stage: "\<exists>s3 im. order_stage s2 m = Inr s3 \<and>
                    opReaders s3 = opReaders s2 @ [OpReorderAxes out m] \<and>
                    Image s3 = Some im \<and> meta_axistags im = out \<and>
                    meta_shape im =
                      map (\<lambda>k. case map_of (getTaggedShape m) k of Some v \<Rightarrow> v | None \<Rightarrow> 1) out"
      using s3 by (simp add: s3_def reorder_axes_fields)
    have at_end: "\<forall>n. nickname (Dataset s) = Some n \<longrightarrow>
                    (\<exists>s'. setupOutputs env s = Inr s' \<and>
                       Image s' = Some (reorder_axes out m) \<and>
                       last (opReaders s') = OpReorderAxes out m)"
    proof (intro allI impI)
      fix n assume "nickname (Dataset s) = Some n"
      with dataset have "nickname (Dataset s3) = Some n" by (simp add: s3_def)
      from name_stage_with_nickname [OF this] obtain s' where s': "name_stage s3 = Inr s'"
        by blast
      with whole s3 have "setupOutputs env s = Inr s'" by simp
      moreover from name_stage_frame [of s3 s'] s'
      have "Image s' = Some (reorder_axes out m)" "last (opReaders s') = OpReorderAxes out m"
        by (simp_all add: s3_def)
      ultimately show "\<exists>s'. setupOutputs env s = Inr s' \<and>
                       Image s' = Some (reorder_axes out m) \<and>
                       last (opReaders s') = OpReorderAxes out m"
        by simp
    qed
    from pick(1,3,4,5) out_def at_stage at_end
    have picked: "\<exists>before chosen after out.
                 orders = before @ chosen # after \<and> minimal_axes m \<subseteq> set chosen \<and>
                 (\<forall>c \<in> set before. minimal_axes m \<subseteq> set c \<longrightarrow> length chosen < length c) \<and>
                 (\<forall>c \<in> set after. minimal_axes m \<subseteq> set c \<longrightarrow> length chosen \<le> length c) \<and>
                 out = (if CHR ''c'' \<in> set chosen then chosen else chosen @ ''c'') \<and>
                 (\<exists>s3 im. order_stage s2 m = Inr s3 \<and>
                    opReaders s3 = opReaders s2 @ [OpReorderAxes out m] \<and>
                    Image s3 = Some im \<and> meta_axistags im = out \<and>
                    meta_shape im =
                      map (\<lambda>k. case map_of (getTaggedShape m) k of Some v \<Rightarrow> v | None \<Rightarrow> 1) out) \<and>
                 (\<forall>n. nickname (Dataset s) = Some n \<longrightarrow>
                    (\<exists>s'. setupOutputs env s = Inr s' \<and>
                       Image s' = Some (reorder_axes out m) \<and>
                       last (opReaders s') = OpReorderAxes out m))"
      by blast
    show ?thesis
    proof (intro conjI impI)
      assume "\<forall>c \<in> set orders. \<not> ?q c"
      with some show "\<exists>s'. setupOutputs env s =
                    Inl (DatasetConstraintError ''DataSelection''
                           (IncompatibleAxes (getAxisKeys m) orders), s') \<and>
                  Image s' = None"
        by (rule notE)
    next
      show "\<exists>before chosen after out.
                 orders = before @ chosen # after \<and> minimal_axes m \<subseteq> set chosen \<and>
                 (\<forall>c \<in> set before. minimal_axes m \<subseteq> set c \<longrightarrow> length chosen < length c) \<and>
                 (\<forall>c \<in> set after. minimal_axes m \<subseteq> set c \<longrightarrow> length chosen \<le> length c) \<and>
                 out = (if CHR ''c'' \<in> set chosen then chosen else chosen @ ''c'') \<and>
                 (\<exists>s3 im. order_stage s2 m = Inr s3 \<and>
                    opReaders s3 = opReaders s2 @ [OpReorderAxes out m] \<and>
                    Image s3 = Some im \<and> meta_axistags im = out \<and>
                    meta_shape im =
                      map (\<lambda>k. case map_of (getTaggedShape m) k of Some v \<Rightarrow> v | None \<Rightarrow> 1) out) \<and>
                 (\<forall>n. nickname (Dataset s) = Some n \<longrightarrow>
                    (\<exists>s'. setupOutputs env s = Inr s' \<and>
                       Image s' = Some (reorder_axes out m) \<and>
                       last (opReaders s') = OpReorderAxes out m))"
        by (rule picked)
    next
      assume "meta_axistags m = ''tzyxc'' \<and> meta_shape m = [1, 1, 50, 50, 1] \<and>
          orders = [''tczyx'']"
      with scenario show "\<exists>s3 im. order_stage s2 m = Inr s3 \<and> Image s3 = Some im \<and>
               meta_axistags im = ''tczyx'' \<and> meta_shape im = [1, 1, 1, 50, 50]"
        by (rule mp)
    qed
  qed
qed

theorem setupOutputs_output_order_witness:
  "\<exists>s' im. setupOutputs test_env (test_op [''tczyx''] ''/data/5d.h5'') = Inr s' \<and>
      Image s' = Some im \<and> meta_axistags im = ''tczyx'' \<and> meta_shape im = [1, 1, 1, 50, 50] \<and>
      length (opReaders s') = 3"
proof -
  let ?md = "[(''display_mode'', VStr ''default''), (''channel_names'', VStrs [''Raw Data'']),
              (''drange'', VRange (0, 255)), (''normalizeDisplay'', VBool False)]"
  let ?m = "inject ?md (meta_of [1, 1, 50, 50, 1] ''tzyxc'')"
  from inject_stage_5d obtain s2 where
    s2: "inject_stage test_env (internalCleanup (test_op [''tczyx''] ''/data/5d.h5'')) =
           Inr (s2, ?m)"
    by blast
  have m: "meta_axistags ?m = ''tzyxc''" "meta_shape ?m = [1, 1, 50, 50, 1]"
    by (simp_all add: inject_def meta_of_def)
  then have tagged: "getTaggedShape ?m =
      [(CHR ''t'', 1), (CHR ''z'', 1), (CHR ''y'', 50), (CHR ''x'', 50), (CHR ''c'', 1)]"
    by (simp add: getTaggedShape_def)
  then have minimal: "minimal_axes ?m = {CHR ''y'', CHR ''x''}"
    by (simp add: minimal_axes_def)
  have x: "CHR ''x'' \<in> set (meta_axistags ?m)" and y: "CHR ''y'' \<in> set (meta_axistags ?m)"
    using m by simp_all
  have force: "forceAxisOrder (test_op [''tczyx''] ''/data/5d.h5'') = OrderList [''tczyx'']"
    by (simp add: test_op_def OpDataSelection_init_def)
  have nick: "nickname (Dataset (test_op [''tczyx''] ''/data/5d.h5'')) = Some ''data''"
    by (simp add: test_op_def OpDataSelection_init_def info_file_def)
  have candidate: "\<exists>c \<in> set [''tczyx'']. minimal_axes ?m \<subseteq> set c"
    using minimal by simp
  have nonempty: "[''tczyx''] \<noteq> []" by simp
  note chosen = setupOutputs_output_order [OF s2 x y force nonempty, THEN conjunct2,
      THEN conjunct1, rule_format, OF candidate]
  then obtain before chosen after out where
    c: "[''tczyx''] = before @ chosen # after"
    and out: "out = (if CHR ''c'' \<in> set chosen then chosen else chosen @ ''c'')"
    and fin: "\<forall>n. nickname (Dataset (test_op [''tczyx''] ''/data/5d.h5'')) = Some n \<longrightarrow>
                (\<exists>s'. setupOutputs test_env (test_op [''tczyx''] ''/data/5d.h5'') = Inr s' \<and>
                   Image s' = Some (reorder_axes out ?m) \<and>
                   last (opReaders s') = OpReorderAxes out ?m)"
    by blast
  from fin nick obtain s' where
    s': "setupOutputs test_env (test_op [''tczyx''] ''/data/5d.h5'') = Inr s'"
      "Image s' = Some (reorder_axes out ?m)"
    by blast
  from c have "chosen = ''tczyx''"
    by (cases before) simp_all
  with out have "out = ''tczyx''" by simp
  with s'(2) have image: "Image s' = Some (reorder_axes ''tczyx'' ?m)" by simp
  from s'(1) configured_op_5d have "s' = configured_op [''tczyx''] ''/data/5d.h5''" by simp
  with configured_op_5d_opReaders have "length (opReaders s') = 3" by simp
  with image s'(1) tagged show ?thesis
    by (simp add: reorder_axes_def)
qed

text \<open>
  Without the axes x and y the order is not chosen: a provider with the axes t and z, of
  extents 10 and 3, and the candidate tczyx, which contains both, end in the
  DatasetConstraintError of the check of the spatial axes, with \<open>Image\<close> not connected.
\<close>

theorem setupOutputs_output_order_counterexample:
  "forceAxisOrder (test_op [''tczyx''] ''/data/tz.h5'') = OrderList [''tczyx''] \<and>
   reader_output test_env (OpInputDataReader None ''/work'' None (Some ''/data/tz.h5'')) =
     Inr (meta_of [10, 3] ''tz'') \<and>
   minimal_axes (meta_of [10, 3] ''tz'') \<subseteq> set ''tczyx'' \<and>
   (case setupOutputs test_env (test_op [''tczyx''] ''/data/tz.h5'') of
      Inl (e, s') \<Rightarrow>
        e = DatasetConstraintError ''DataSelection'' xy_message \<and> Image s' = None \<and>
        opReaders s' = []
    | Inr s' \<Rightarrow> False)"
  by (simp add: setupOutputs_def setupOutputs_body_def inject_stage_def
      make_reader_def configure_def construct_def append_opReader_def test_op_def test_env_def
      test_reader_def OpDataSelection_init_def info_file_def internalCleanup_def
      build_metadata_def channel_names_def metadata_drange_def set_if_def getTaggedShape_def
      meta_of_def order_stage_def minimal_axes_def inject_def Let_def)

section \<open>The injected display range\<close>








section \<open>Expanding the path of a dataset\<close>

lemma expand_components_missing:
  assumes "pc \<in> set pcs" and "glob env (glob_target env cwd pc) = []"
  shows "\<exists>e. expand_components gip env cwd pcs acc = Inl e"
  using assms
proof (induction pcs arbitrary: acc)
  case Nil
  then show ?case by simp
next
  case (Cons a pcs)
  show ?case
  proof (cases "glob env (glob_target env cwd a) = []")
    case True
    then show ?thesis by (simp add: Let_def)
  next
    case False
    with Cons.prems have "pc \<in> set pcs" by auto
    from Cons.IH [OF this Cons.prems(2)] False show ?thesis
      by (auto simp: Let_def split: sum.splits)
  qed
qed

lemma expandPath_missing:
  assumes "p \<in> set (splitPath env (Some file_path))"
    and "glob env (glob_target env (cwd_or_getcwd env cwd) (path_components env p)) = []"
  shows "\<exists>e. expandPath depth env file_path cwd = Inl e"
proof (cases depth)
  case 0
  then show ?thesis by simp
next
  case (Suc d)
  from assms(1) have "path_components env p \<in>
      set (map (path_components env) (splitPath env (Some file_path)))"
    by simp
  from expand_components_missing [OF this assms(2),
      of "globInternalPaths_body (expandPath d env) env" "[]"]
  obtain e where "expand_components (globInternalPaths_body (expandPath d env) env) env
      (cwd_or_getcwd env cwd) (map (path_components env) (splitPath env (Some file_path))) []
      = Inl e"
    by blast
  with Suc show ?thesis
    by (simp add: expandPath_body_def)
qed

lemma expandPath_first_missing:
  assumes "splitPath env (Some file_path) = p # rest"
    and "glob env (glob_target env (cwd_or_getcwd env cwd) (path_components env p)) = []"
  shows "expandPath (Suc depth) env file_path cwd =
           Inl (PyException (CouldNotFindFile (externalPath (path_components env p))))"
  using assms by (simp add: expandPath_body_def Let_def)

lemma cwd_or_getcwd_twice:
  "cwd_or_getcwd env (Some (cwd_or_getcwd env cwd)) = cwd_or_getcwd env cwd"
  by (auto simp: cwd_or_getcwd_def split: option.splits)

lemma DatasetInfo_init_missing:
  assumes "p \<in> set (splitPath env (Some file_path))"
    and "glob env (glob_target env (cwd_or_getcwd env (arg_cwd a)) (path_components env p)) = []"
    and "arg_filepath a = Some file_path" and "file_path \<noteq> []" and "\<not> isUrl env file_path"
    and "arg_location a = FileSystem"
  shows "\<exists>e. DatasetInfo_init depth env a = Inl e"
proof (cases "arg_preloaded_array a")
  case (Some arr)
  with assms(3,4) show ?thesis by (simp add: DatasetInfo_init_def)
next
  case None
  from assms(2) have "glob env (glob_target env
      (cwd_or_getcwd env (Some (cwd_or_getcwd env (arg_cwd a)))) (path_components env p)) = []"
    by (simp add: cwd_or_getcwd_twice)
  from expandPath_missing [OF assms(1) this] obtain e where
    "expandPath depth env file_path (Some (cwd_or_getcwd env (arg_cwd a))) = Inl e"
    by blast
  then have "create_nickname depth env file_path (Some (cwd_or_getcwd env (arg_cwd a))) = Inl e"
    by (simp add: create_nickname_def)
  with None assms(3-6) have "init_branch depth env a (init_fields env a) = Inl e"
    by (simp add: init_branch_def)
  with None show ?thesis by (simp add: DatasetInfo_init_def)
qed

text \<open>
  Claim C6. When a component of a file path globs to no existing file, \<open>expandPath\<close>
  itself raises and returns no paths; when it is the first component, what it raises is
  the exception "Could not find file at ..." for that component. The constructor of a
  \<open>DatasetInfo\<close> for such a path on the file system raises as well, so no dataset info
  exists whose later read could fail in its place.
\<close>

theorem expandPath_raises_eagerly:
  assumes "p \<in> set (splitPath env (Some file_path))"
    and "glob env (glob_target env (cwd_or_getcwd env cwd) (path_components env p)) = []"
  shows "(\<exists>e. expandPath depth env file_path cwd = Inl e) \<and>
         ((\<exists>rest. splitPath env (Some file_path) = p # rest) \<longrightarrow>
            expandPath (Suc depth) env file_path cwd =
              Inl (PyException (CouldNotFindFile (externalPath (path_components env p))))) \<and>
         (\<forall>a. arg_filepath a = Some file_path \<and> file_path \<noteq> [] \<and> \<not> isUrl env file_path \<and>
              arg_location a = FileSystem \<and> arg_cwd a = cwd \<longrightarrow>
              (\<exists>e. DatasetInfo_init depth env a = Inl e))"
proof (intro conjI impI allI)
  show "\<exists>e. expandPath depth env file_path cwd = Inl e"
    by (rule expandPath_missing [OF assms])
next
  assume "\<exists>rest. splitPath env (Some file_path) = p # rest"
  then obtain rest where "splitPath env (Some file_path) = p # rest" by blast
  from expandPath_first_missing [OF this assms(2)]
  show "expandPath (Suc depth) env file_path cwd =
          Inl (PyException (CouldNotFindFile (externalPath (path_components env p))))" .
next
  fix a :: init_args
  assume a: "arg_filepath a = Some file_path \<and> file_path \<noteq> [] \<and> \<not> isUrl env file_path \<and>
             arg_location a = FileSystem \<and> arg_cwd a = cwd"
  with assms(2) have "glob env (glob_target env (cwd_or_getcwd env (arg_cwd a))
                        (path_components env p)) = []"
    by simp
  from DatasetInfo_init_missing [OF assms(1) this] a
  show "\<exists>e. DatasetInfo_init depth env a = Inl e" by blast
qed

lemma test_fs_split: "splitPath test_fs (Some ''/nothing/x.png'') = [''/nothing/x.png'']"
  by (simp add: test_fs_def)

lemma test_fs_glob:
  "glob test_fs (glob_target test_fs (cwd_or_getcwd test_fs None)
     (path_components test_fs ''/nothing/x.png'')) = []"
  by (simp add: test_fs_def glob_target_def test_components_def)

theorem expandPath_raises_eagerly_witness:
  "expandPath 5 test_fs ''/nothing/x.png'' None =
     Inl (PyException (CouldNotFindFile ''/nothing/x.png'')) \<and>
   (\<exists>e. DatasetInfo_init 5 test_fs (test_args (Some ''/nothing/x.png'') None) = Inl e)"
proof -
  have member: "''/nothing/x.png'' \<in> set (splitPath test_fs (Some ''/nothing/x.png''))"
    by (simp add: test_fs_split)
  note first_case = expandPath_raises_eagerly [OF member test_fs_glob, of 4]
  have first: "\<exists>rest. splitPath test_fs (Some ''/nothing/x.png'') = ''/nothing/x.png'' # rest"
    by (simp add: test_fs_split)
  from first_case first have "expandPath (Suc 4) test_fs ''/nothing/x.png'' None =
      Inl (PyException (CouldNotFindFile
        (externalPath (path_components test_fs ''/nothing/x.png''))))"
    by blast
  then have one: "expandPath 5 test_fs ''/nothing/x.png'' None =
      Inl (PyException (CouldNotFindFile ''/nothing/x.png''))"
    by (simp add: test_fs_def test_components_def)
  have args: "arg_filepath (test_args (Some ''/nothing/x.png'') None) = Some ''/nothing/x.png'' \<and>
      ''/nothing/x.png'' \<noteq> [] \<and> \<not> isUrl test_fs ''/nothing/x.png'' \<and>
      arg_location (test_args (Some ''/nothing/x.png'') None) = FileSystem \<and>
      arg_cwd (test_args (Some ''/nothing/x.png'') None) = None"
    by (simp add: test_args_def test_fs_def)
  note init_case = expandPath_raises_eagerly [OF member test_fs_glob, of 5]
  from init_case args
  have "\<exists>e. DatasetInfo_init 5 test_fs (test_args (Some ''/nothing/x.png'') None) = Inl e"
    by blast
  with one show ?thesis by simp
qed

section \<open>Files of different extensions\<close>

text \<open>
  Claim C5, amended. When the files a path expands to do not all have the extension of
  the first, \<open>create_nickname\<close> raises an exception and returns no nickname; the
  exception is not the constraint-violation signal (DatasetConstraintError) and names no
  operator.
\<close>

theorem create_nickname_mixed_extensions:
  assumes "expandPath depth env filepath cwd = Inr paths"
    and "p \<in> set paths"
    and "extension (path_components env p) \<noteq> extension (path_components env (hd paths))"
  shows "\<exists>e. create_nickname depth env filepath cwd = Inl e \<and> \<not> constraint_error e"
proof -
  from assms(2,3) have "list_ex (\<lambda>pc. extension pc \<noteq> extension (hd (map (path_components env) paths)))
      (map (path_components env) paths)"
    by (cases paths) (auto simp: list_ex_iff)
  with assms(1) have "create_nickname depth env filepath cwd = Inl (NameError ''filePath'')"
    by (simp add: create_nickname_def Let_def)
  then show ?thesis by simp
qed

lemma expandPath_stack:
  "expandPath 5 test_fs ''/stack/*'' None = Inr [''/stack/a.png'', ''/stack/b.jpg'']"
  by code_simp

theorem create_nickname_mixed_extensions_witness:
  "expandPath 5 test_fs ''/stack/*'' None = Inr [''/stack/a.png'', ''/stack/b.jpg''] \<and>
   (\<exists>e. create_nickname 5 test_fs ''/stack/*'' None = Inl e \<and> \<not> constraint_error e)"
proof -
  have member: "''/stack/b.jpg'' \<in> set [''/stack/a.png'', ''/stack/b.jpg'']" by simp
  have differ: "extension (path_components test_fs ''/stack/b.jpg'') \<noteq>
      extension (path_components test_fs (hd [''/stack/a.png'', ''/stack/b.jpg'']))"
    by (simp add: test_fs_def test_components_def)
  from create_nickname_mixed_extensions [OF expandPath_stack member differ] expandPath_stack
  show ?thesis by simp
qed

theorem create_nickname_mixed_extensions_counterexample:
  "expandPath 5 test_fs ''/stack/*'' None = Inr [''/stack/a.png'', ''/stack/b.jpg''] \<and>
   extension (path_components test_fs ''/stack/a.png'') = ''.png'' \<and>
   extension (path_components test_fs ''/stack/b.jpg'') = ''.jpg'' \<and>
   create_nickname 5 test_fs ''/stack/*'' None = Inl (NameError ''filePath'') \<and>
   \<not> constraint_error (NameError ''filePath'')"
proof -
  have "create_nickname 5 test_fs ''/stack/*'' None = Inl (NameError ''filePath'')"
    using expandPath_stack
    by (simp add: create_nickname_def Let_def test_fs_def test_components_def)
  with expandPath_stack show ?thesis
    by (simp add: test_fs_def test_components_def)
qed

section \<open>The assertion of the constructor\<close>

lemma glob_files_no_assertion:
  assumes "glob_files env glob_str ps acc = Inl e"
  shows "\<not> assertion e"
  using assms
  by (induction ps arbitrary: acc) (auto split: if_splits sum.splits)

lemma expand_unglobbed_no_assertion:
  assumes "\<And>a b e'. gip a b = Inl e' \<Longrightarrow> \<not> assertion e'"
    and "expand_unglobbed gip env pc ps acc = Inl e"
  shows "\<not> assertion e"
  using assms(2)
proof (induction ps arbitrary: acc)
  case Nil
  then show ?case by simp
next
  case (Cons a ps)
  then show ?case
    using assms(1) by (auto split: option.splits sum.splits if_splits)
qed

lemma expand_components_no_assertion:
  assumes "\<And>a b e'. gip a b = Inl e' \<Longrightarrow> \<not> assertion e'"
    and "expand_components gip env cwd pcs acc = Inl e"
  shows "\<not> assertion e"
  using assms(2)
proof (induction pcs arbitrary: acc)
  case Nil
  then show ?case by simp
next
  case (Cons a pcs)
  then show ?case
    using expand_unglobbed_no_assertion [OF assms(1)]
    by (auto simp: Let_def split: sum.splits if_splits)
qed

lemma expandPath_no_assertion:
  assumes "expandPath depth env file_path cwd = Inl e"
  shows "\<not> assertion e"
  using assms
proof (induction depth arbitrary: file_path cwd e)
  case 0
  then show ?case by auto
next
  case (Suc depth)
  have gip: "\<And>a b e'. globInternalPaths_body (expandPath depth env) env a b = Inl e'
      \<Longrightarrow> \<not> assertion e'"
    using Suc.IH glob_files_no_assertion
    by (auto simp: globInternalPaths_body_def split: sum.splits)
  from Suc.prems expand_components_no_assertion [OF gip] show ?case
    by (auto simp: expandPath_body_def split: sum.splits)
qed

lemma create_nickname_no_assertion:
  assumes "create_nickname depth env filepath cwd = Inl e"
  shows "\<not> assertion e"
  using assms expandPath_no_assertion [of depth env filepath cwd]
  by (auto simp: create_nickname_def Let_def split: sum.splits if_splits list.splits)

lemma init_branch_no_assertion:
  assumes "init_branch depth env a info = Inl e"
  shows "\<not> assertion e"
  using assms create_nickname_no_assertion [of depth env]
  by (auto simp: init_branch_def Let_def
      split: sum.splits bool.splits option.splits if_splits prod.splits)

lemma updateFromJson_no_assertion:
  assumes "updateFromJson ns info = Inl e"
  shows "\<not> assertion e"
  using assms by (auto simp: updateFromJson_def Let_def split: if_splits)

text \<open>
  Claim C9. When the constructor of \<open>DatasetInfo\<close> is given a preloaded array together
  with a non-empty file path, it fails with the AssertionError "You can't provide filepath
  and a preloaded_array". When at most one of the two is given, the constructor raises no
  AssertionError at all.
\<close>

theorem DatasetInfo_init_assertion:
  "(arg_preloaded_array a \<noteq> None \<and> truthy (arg_filepath a) \<longrightarrow>
      DatasetInfo_init depth env a = Inl (AssertionError assert_message)) \<and>
   (arg_preloaded_array a = None \<or> \<not> truthy (arg_filepath a) \<longrightarrow>
      (\<forall>msg. DatasetInfo_init depth env a \<noteq> Inl (AssertionError msg)))"
proof (intro conjI impI allI notI)
  assume "arg_preloaded_array a \<noteq> None \<and> truthy (arg_filepath a)"
  then show "DatasetInfo_init depth env a = Inl (AssertionError assert_message)"
    by (simp add: DatasetInfo_init_def)
next
  fix msg
  assume one: "arg_preloaded_array a = None \<or> \<not> truthy (arg_filepath a)"
    and raised: "DatasetInfo_init depth env a = Inl (AssertionError msg)"
  from one raised have "init_branch depth env a (init_fields env a) = Inl (AssertionError msg)
      \<or> (\<exists>ns info. updateFromJson ns info = Inl (AssertionError msg))"
    by (auto simp: DatasetInfo_init_def split: sum.splits option.splits if_splits)
  with init_branch_no_assertion updateFromJson_no_assertion show False
    by fastforce
qed

theorem DatasetInfo_init_assertion_witness:
  "DatasetInfo_init 5 test_fs (test_args (Some ''/stack/a.png'') (Some test_array)) =
     Inl (AssertionError assert_message) \<and>
   DatasetInfo_init 5 test_fs (test_args None (Some test_array)) \<noteq>
     Inl (AssertionError assert_message) \<and>
   DatasetInfo_init 5 test_fs (test_args (Some ''/stack/a.png'') None) \<noteq>
     Inl (AssertionError assert_message)"
proof -
  have both: "arg_preloaded_array (test_args (Some ''/stack/a.png'') (Some test_array)) \<noteq> None \<and>
      truthy (arg_filepath (test_args (Some ''/stack/a.png'') (Some test_array)))"
    by (simp add: test_args_def)
  have array_only: "arg_preloaded_array (test_args None (Some test_array)) = None \<or>
      \<not> truthy (arg_filepath (test_args None (Some test_array)))"
    by (simp add: test_args_def)
  have path_only: "arg_preloaded_array (test_args (Some ''/stack/a.png'') None) = None \<or>
      \<not> truthy (arg_filepath (test_args (Some ''/stack/a.png'') None))"
    by (simp add: test_args_def)
  from DatasetInfo_init_assertion [of "test_args (Some ''/stack/a.png'') (Some test_array)" 5 test_fs]
    both
  have one: "DatasetInfo_init 5 test_fs (test_args (Some ''/stack/a.png'') (Some test_array)) =
      Inl (AssertionError assert_message)"
    by blast
  from DatasetInfo_init_assertion [of "test_args None (Some test_array)" 5 test_fs] array_only
  have two: "DatasetInfo_init 5 test_fs (test_args None (Some test_array)) \<noteq>
      Inl (AssertionError assert_message)"
    by blast
  from DatasetInfo_init_assertion [of "test_args (Some ''/stack/a.png'') None" 5 test_fs] path_only
  have three: "DatasetInfo_init 5 test_fs (test_args (Some ''/stack/a.png'') None) \<noteq>
      Inl (AssertionError assert_message)"
    by blast
  from one two three show ?thesis by simp
qed

section \<open>A reader that cannot be configured\<close>

lemma setupOutputs_raise_disconnects:
  assumes "reachable s" and "setupOutputs env s = Inl (e, s')"
  shows "opReaders s' = [] \<and> Image s' = None \<and> NonTransposedImage s' = None"
proof -
  from assms(2) obtain sx where "s' = internalCleanup sx"
    unfolding setupOutputs_def by (auto split: sum.splits)
  then have empty: "opReaders s' = []" by (simp add: internalCleanup_opReaders)
  from setupOutputs_Inl_wired [OF assms(2) reachable_wired [OF assms(1)]] empty
  show ?thesis by (simp add: wired_def)
qed

text \<open>
  Claim C3 does not hold for the reader. Whenever \<open>setupOutputs\<close> raises, the reader
  list is empty and both image outputs are disconnected, as the lemma above shows. But
  when the configuration of the file reader raises, the reader the call constructed was
  not yet in the list: after the cleanup at the start of the call no \<open>cleanUp()\<close> is
  called, and the reader is still among the children when the exception is raised again.
\<close>

theorem setupOutputs_leaks_unconfigured_reader:
  assumes "location (Dataset s) = FileSystem" and "realDataSource (Dataset s)"
    and "reader_output env
           (OpInputDataReader (subvolume_roi (Dataset s)) (WorkingDirectory s)
              (sequenceAxis (Dataset s)) (filePath (Dataset s))) = Inl e"
  shows "\<exists>s'. setupOutputs env s = Inl (External e, s') \<and> opReaders s' = [] \<and>
           cleaned s' = cleaned (internalCleanup s) \<and>
           children s' = children (internalCleanup s) @
             [OpInputDataReader (subvolume_roi (Dataset s)) (WorkingDirectory s)
                (sequenceAxis (Dataset s)) (filePath (Dataset s))]"
  using assms
  by (simp add: setupOutputs_def setupOutputs_body_def inject_stage_def make_reader_def
      configure_def construct_def internalCleanup_def Let_def)

theorem setupOutputs_leaks_unconfigured_reader_witness:
  "\<exists>s'. setupOutputs test_env (test_op [''tczyx''] ''/data/none.h5'') =
           Inl (External ''Input file does not exist'', s') \<and>
         opReaders s' = [] \<and> cleaned s' = [] \<and>
         children s' = [OpInputDataReader None ''/work'' None (Some ''/data/none.h5'')]"
proof -
  have fs: "location (Dataset (test_op [''tczyx''] ''/data/none.h5'')) = FileSystem"
    and real: "realDataSource (Dataset (test_op [''tczyx''] ''/data/none.h5''))"
    by (simp_all add: test_op_def OpDataSelection_init_def info_file_def)
  have raises: "reader_output test_env
      (OpInputDataReader (subvolume_roi (Dataset (test_op [''tczyx''] ''/data/none.h5'')))
         (WorkingDirectory (test_op [''tczyx''] ''/data/none.h5''))
         (sequenceAxis (Dataset (test_op [''tczyx''] ''/data/none.h5'')))
         (filePath (Dataset (test_op [''tczyx''] ''/data/none.h5'')))) =
      Inl ''Input file does not exist''"
    by (simp add: test_op_def OpDataSelection_init_def info_file_def test_env_def
        test_reader_def)
  from setupOutputs_leaks_unconfigured_reader [OF fs real raises]
  show ?thesis
    by (simp add: test_op_def OpDataSelection_init_def info_file_def internalCleanup_def)
qed

section \<open>A dataset of another rank\<close>

lemma make_reader_no_dimensionality_error:
  assumes "make_reader env s = Inl (e, sx)"
  shows "\<not> dimensionality_error e"
  using assms
  unfolding make_reader_def configure_def Let_def
  by (auto split: Location.splits option.splits if_splits sum.splits)

lemma reinterpret_axes_no_dimensionality_error:
  assumes "reinterpret_axes ks squeezed info_keys dummy_axes out_axes = Inl e"
  shows "\<not> dimensionality_error e"
  using assms
  by (induction ks squeezed info_keys dummy_axes out_axes rule: reinterpret_axes.induct)
    (auto split: if_splits list.splits)

lemma build_metadata_no_dimensionality_error:
  assumes "build_metadata env datasetInfo role m = Inl e"
  shows "\<not> dimensionality_error e"
  using assms reinterpret_axes_no_dimensionality_error
  unfolding build_metadata_def injected_axistags_def Let_def
  by (auto split: option.splits sum.splits if_splits)

lemma setupOutputs_body_no_dimensionality_error:
  assumes "setupOutputs_body env s = Inl (e, sx)"
  shows "\<not> dimensionality_error e"
proof (cases "inject_stage env s")
  case (Inl raised)
  with assms have "inject_stage env s = Inl (e, sx)"
    unfolding setupOutputs_body_def by simp
  then show ?thesis
    using make_reader_no_dimensionality_error build_metadata_no_dimensionality_error
    unfolding inject_stage_def
    by (auto split: sum.splits prod.splits simp: Let_def)
next
  case (Inr ok)
  obtain s2 m where ok: "ok = (s2, m)" by (cases ok)
  show ?thesis
  proof (cases "order_stage s2 m")
    case (Inl raised)
    with assms Inr ok have "order_stage s2 m = Inl (e, sx)"
      unfolding setupOutputs_body_def by simp
    then show ?thesis
      unfolding order_stage_def choose_output_order_def
      by (auto split: if_splits sum.splits force_order.splits simp: Let_def)
  next
    case (Inr s3)
    with assms \<open>inject_stage env s = Inr ok\<close> ok have "name_stage s3 = Inl (e, sx)"
      unfolding setupOutputs_body_def by simp
    from name_stage_Inl_error [OF this] show ?thesis by simp
  qed
qed

lemma setupOutputs_no_dimensionality_error:
  assumes "setupOutputs env s = Inl (e, s')"
  shows "\<not> dimensionality_error e"
proof -
  from assms obtain sx where "setupOutputs_body env (internalCleanup s) = Inl (e, sx)"
    unfolding setupOutputs_def by (auto split: sum.splits)
  from setupOutputs_body_no_dimensionality_error [OF this] show ?thesis .
qed

lemma configured_op_2d:
  "configured_op [''yxc'', ''zyxc''] ''/data/2d.png'' =
     (test_op [''yxc'', ''zyxc''] ''/data/2d.png'')\<lparr>
        opReaders :=
          [OpInputDataReader None ''/work'' None (Some ''/data/2d.png''),
           OpMetadataInjector (meta_of [50, 50] ''yx'')
             [(''display_mode'', VStr ''default''), (''channel_names'', VStrs [''Raw Data'']),
              (''drange'', VRange (0, 255)), (''normalizeDisplay'', VBool False)],
           OpReorderAxes ''yxc''
             (inject [(''display_mode'', VStr ''default''),
                      (''channel_names'', VStrs [''Raw Data'']),
                      (''drange'', VRange (0, 255)), (''normalizeDisplay'', VBool False)]
                (meta_of [50, 50] ''yx''))],
        children :=
          [OpInputDataReader None ''/work'' None (Some ''/data/2d.png''),
           OpMetadataInjector (meta_of [50, 50] ''yx'')
             [(''display_mode'', VStr ''default''), (''channel_names'', VStrs [''Raw Data'']),
              (''drange'', VRange (0, 255)), (''normalizeDisplay'', VBool False)],
           OpReorderAxes ''yxc''
             (inject [(''display_mode'', VStr ''default''),
                      (''channel_names'', VStrs [''Raw Data'']),
                      (''drange'', VRange (0, 255)), (''normalizeDisplay'', VBool False)]
                (meta_of [50, 50] ''yx''))],
        NonTransposedImage :=
          Some (inject [(''display_mode'', VStr ''default''),
                        (''channel_names'', VStrs [''Raw Data'']),
                        (''drange'', VRange (0, 255)), (''normalizeDisplay'', VBool False)]
                  (meta_of [50, 50] ''yx'')),
        Image :=
          Some (reorder_axes ''yxc''
                 (inject [(''display_mode'', VStr ''default''),
                          (''channel_names'', VStrs [''Raw Data'']),
                          (''drange'', VRange (0, 255)), (''normalizeDisplay'', VBool False)]
                    (meta_of [50, 50] ''yx''))),
        AllowLabels := Some True, ImageName := Some (Some ''data'')\<rparr> \<and>
   setupOutputs test_env (test_op [''yxc'', ''zyxc''] ''/data/2d.png'') =
     Inr (configured_op [''yxc'', ''zyxc''] ''/data/2d.png'')"
  by (simp add: configured_op_def setupOutputs_def setupOutputs_body_def inject_stage_def
      make_reader_def configure_def construct_def append_opReader_def test_op_def test_env_def
      test_reader_def OpDataSelection_init_def info_file_def internalCleanup_def
      build_metadata_def channel_names_def metadata_drange_def set_if_def getTaggedShape_def
      meta_of_def order_stage_def choose_output_order_def minimal_axes_def with_channel_def
      reorder_axes_def name_stage_def inject_def getAxisKeys_def Let_def)

text \<open>
  Claim C4 does not hold. An operator configured with a 2D image (axes yx, output yxc)
  whose dataset is replaced by a 3D volume (axes zyx) is set up again without any
  exception: \<open>setupOutputs\<close> returns, \<open>_NonTransposedImage\<close> goes from rank 2 to rank 3 and
  \<open>Image\<close> from the axes yxc to zyxc. The InvalidDimensionalityError that the operator
  declares is raised nowhere.
\<close>

theorem setupOutputs_accepts_other_rank:
  "\<exists>s2 before after im.
     setupOutputs test_env (test_op [''yxc'', ''zyxc''] ''/data/2d.png'') =
       Inr (configured_op [''yxc'', ''zyxc''] ''/data/2d.png'') \<and>
     NonTransposedImage (configured_op [''yxc'', ''zyxc''] ''/data/2d.png'') = Some before \<and>
     length (meta_shape before) = 2 \<and>
     setupOutputs test_env
       ((configured_op [''yxc'', ''zyxc''] ''/data/2d.png'')\<lparr>Dataset := info_file ''/data/3d.h5''\<rparr>) =
       Inr s2 \<and>
     NonTransposedImage s2 = Some after \<and> length (meta_shape after) = 3 \<and>
     Image s2 = Some im \<and> meta_axistags im = ''zyxc'' \<and> meta_shape im = [10, 50, 50, 1]"
proof -
  have "\<exists>s2 after im. setupOutputs test_env
       ((configured_op [''yxc'', ''zyxc''] ''/data/2d.png'')\<lparr>Dataset := info_file ''/data/3d.h5''\<rparr>) =
       Inr s2 \<and>
     NonTransposedImage s2 = Some after \<and> length (meta_shape after) = 3 \<and>
     Image s2 = Some im \<and> meta_axistags im = ''zyxc'' \<and> meta_shape im = [10, 50, 50, 1]"
    unfolding configured_op_2d [THEN conjunct1]
    by (simp add: setupOutputs_def setupOutputs_body_def inject_stage_def
      make_reader_def configure_def construct_def append_opReader_def test_op_def test_env_def
      test_reader_def OpDataSelection_init_def info_file_def internalCleanup_def
      build_metadata_def channel_names_def metadata_drange_def set_if_def getTaggedShape_def
      meta_of_def order_stage_def choose_output_order_def minimal_axes_def with_channel_def
      reorder_axes_def name_stage_def inject_def getAxisKeys_def Let_def)
  moreover have "\<exists>before.
      NonTransposedImage (configured_op [''yxc'', ''zyxc''] ''/data/2d.png'') = Some before \<and>
      length (meta_shape before) = 2"
    unfolding configured_op_2d [THEN conjunct1]
    by (simp add: inject_def meta_of_def)
  ultimately show ?thesis
    using configured_op_2d [THEN conjunct2] by blast
qed

theorem setupOutputs_accepts_other_rank_witness:
  "\<exists>s2. setupOutputs test_env
       ((configured_op [''yxc'', ''zyxc''] ''/data/2d.png'')\<lparr>Dataset := info_file ''/data/3d.h5''\<rparr>) =
       Inr s2"
  using setupOutputs_accepts_other_rank by blast

end
